theory Spec2Isabelle
  imports Main "HOL-Library.AList"
begin

section \<open>Plugin lifecycle manager: data model\<close>

text \<open>
  A shallow embedding of \<^verbatim>\<open>src/services/pluginManagerService.ts\<close>.
  Mutation is explicit state passing, a thrown error is a value of type \<open>error\<close>,
  a JavaScript \<^verbatim>\<open>Map\<close> is an association list in insertion order
  (\<open>AList.update\<close> keeps the position of an existing key and appends a new one,
  as \<^verbatim>\<open>Map.set\<close> does), a \<^verbatim>\<open>Set<string>\<close> of component names is a set,
  and a function reference (an event handler, an init hook) is a number standing for
  its identity.
  Clock readings (\<^verbatim>\<open>Date.now()\<close>) are an argument \<open>now\<close> of each operation.
  Calls to the logger and to the install progress callback are not modelled.
\<close>

type_synonym handler = nat

text \<open>An action, provider or evaluator object: its \<^verbatim>\<open>name\<close> and the rest of it.\<close>

record Component =
  cname :: string
  cimpl :: nat

text \<open>
  A running service instance (its \<^verbatim>\<open>stop()\<close> returns, or throws the given message)
  and a service class (its static \<^verbatim>\<open>serviceType\<close>; its static \<^verbatim>\<open>start\<close> returns
  an instance, \<open>Inr\<close>, or throws a message, \<open>Inl\<close>).
\<close>

record Service =
  inst :: nat
  stop :: "string option"

record ServiceClass =
  serviceType :: string
  start :: "string + Service"

text \<open>
  A plugin object. Its optional \<^verbatim>\<open>init\<close> hook is a function reference; what a call of
  the referenced function does to the host it is handed is the state component
  \<open>initCode\<close> below.
\<close>

record Plugin =
  p_name :: string
  p_init :: "handler option"
  p_actions :: "Component list option"
  p_providers :: "Component list option"
  p_evaluators :: "Component list option"
  p_events :: "(string \<times> handler list) list option"
  p_services :: "ServiceClass list option"

text \<open>
  Modelled from the spec: \<^verbatim>\<open>types.ts\<close> is not among the sources; the status enum,
  the component kinds and the lifecycle events are the ones the spec and the service name.
\<close>

datatype PluginStatus = READY | LOADED | UNLOADED | ERROR

datatype ComponentType = ActionT | ProviderT | EvaluatorT | EventHandlerT | ServiceT

datatype LifecycleEvent =
    PLUGIN_BUILDING string string
  | PLUGIN_LOADED string string
  | PLUGIN_UNLOADED string string
  | PLUGIN_ERROR string string string
  | PLUGIN_READY string string

record ComponentRegistration =
  pluginId :: string
  componentType :: ComponentType
  componentName :: string
  timestamp :: int

record PluginComponents =
  c_actions :: "string set"
  c_providers :: "string set"
  c_evaluators :: "string set"
  c_services :: "string set"
  c_eventHandlers :: "(string \<times> handler list) list"

record PluginState =
  s_id :: string
  s_name :: string
  status :: PluginStatus
  plugin :: "Plugin option"
  missingEnvVars :: "string list"
  buildLog :: "string list"
  createdAt :: int
  loadedAt :: "int option"
  unloadedAt :: "int option"
  error :: "string option"
  components :: PluginComponents

text \<open>
  The host runtime (\<^verbatim>\<open>IAgentRuntime\<close> of the host library, outside this repository).
  Its registries are the arrays and maps the service reads and splices directly.
  \<open>createUniqueUuid\<close> is the host's deterministic id of a name; \<open>hostFault\<close> says which
  awaited registration call of the host rejects, and with what message; \<open>emitted\<close>
  records the lifecycle notifications passed to \<^verbatim>\<open>emitEvent\<close>.
\<close>

datatype HostCall =
    RegisterAction string
  | RegisterProvider string
  | RegisterEvaluator string
  | RegisterEvent string handler

record Runtime =
  agentId :: string
  createUniqueUuid :: "string \<Rightarrow> string"
  hostFault :: "HostCall \<Rightarrow> string option"
  r_plugins :: "Plugin list"
  r_actions :: "Component list"
  r_providers :: "Component list"
  r_evaluators :: "Component list"
  r_services :: "(string \<times> Service) list"
  r_events :: "(string \<times> handler list) list"
  emitted :: "LifecycleEvent list"

record PluginManagerConfig =
  maxBuildAttempts :: "nat option"
  buildTimeout :: "nat option"
  pluginDirectory :: "string option"
  enableHotReload :: "bool option"

record EnvVar =
  ev_name :: string
  ev_description :: string
  ev_sensitive :: bool
  isSet :: bool

datatype InstallStatus =
  installed | loaded | active | inactive | error_status | needs_configuration

record DynamicPluginInfo =
  i_name :: string
  i_version :: string
  i_status :: InstallStatus
  i_path :: string
  requiredEnvVars :: "EnvVar list"
  errorDetails :: "string option"
  installedAt :: int
  lastActivated :: "int option"

text \<open>
  The service object and the host it holds. The code of the init hooks is not a field of
  the class: \<open>initCode s h rt\<close> is what the call \<^verbatim>\<open>init({}, runtime)\<close> of the hook \<open>h\<close>
  does when the host is \<open>rt\<close>, namely the host as the call leaves it and, when the call
  throws, the message of the error. No operation of the service changes it.
\<close>

record Manager =
  initCode :: "handler \<Rightarrow> Runtime \<Rightarrow> string option \<times> Runtime"
  runtime :: Runtime
  plugins :: "(string \<times> PluginState) list"
  pluginManagerConfig :: PluginManagerConfig
  originalPlugins :: "Plugin list"
  originalActions :: "string set"
  originalProviders :: "string set"
  originalEvaluators :: "string set"
  originalServices :: "string set"
  installedPlugins :: "(string \<times> DynamicPluginInfo) list"
  componentRegistry :: "(string \<times> ComponentRegistration list) list"

section \<open>Errors\<close>

text \<open>One constructor for each \<^verbatim>\<open>throw\<close> of the service; \<open>Thrown\<close> is an error
  raised by plugin code or by an external call, with its message.\<close>

datatype error =
    NotFound string
  | InvalidState string PluginStatus
  | MissingInstance string
  | ProtectedPlugin string
  | AlreadyRegistered string
  | StateNotFound
  | NotInstalled string
  | ConfigurationRequired string
  | ModuleLoadFailed
  | NotInRegistry string
  | NoInstallMethod string
  | BundleNotFound string
  | UnsupportedBundleFormat
  | ManifestUnreadable string
  | Thrown string

fun status_string :: "PluginStatus \<Rightarrow> string" where
  "status_string READY = ''ready''"
| "status_string LOADED = ''loaded''"
| "status_string UNLOADED = ''unloaded''"
| "status_string ERROR = ''error''"

fun error_message :: "error \<Rightarrow> string" where
  "error_message (NotFound i) = ''Plugin '' @ i @ '' not found in registry''"
| "error_message (InvalidState n st) =
     ''Plugin '' @ n @ '' is not ready to load (status: '' @ status_string st @ '')''"
| "error_message (MissingInstance n) = ''Plugin '' @ n @ '' has no plugin instance''"
| "error_message (ProtectedPlugin n) = ''Cannot unload original plugin '' @ n"
| "error_message (AlreadyRegistered n) = ''Plugin '' @ n @ '' already registered''"
| "error_message StateNotFound = ''Plugin state not found during component registration''"
| "error_message (NotInstalled n) = ''Plugin '' @ n @ '' is not installed''"
| "error_message (ConfigurationRequired n) =
     ''Plugin '' @ n @ '' requires configuration before loading''"
| "error_message ModuleLoadFailed = ''Failed to load plugin module''"
| "error_message (NotInRegistry n) = ''Plugin '' @ n @ '' not found in registry''"
| "error_message (NoInstallMethod n) = ''No installation method available for plugin '' @ n"
| "error_message (BundleNotFound p) = ''Bundle path does not exist: '' @ p"
| "error_message UnsupportedBundleFormat = ''Compressed bundle installation not yet implemented''"
| "error_message (ManifestUnreadable p) = ''Failed to read package.json from '' @ p"
| "error_message (Thrown m) = m"

section \<open>Host collaborator\<close>

text \<open>
  The host's \<^verbatim>\<open>registerAction\<close>, \<^verbatim>\<open>registerProvider\<close>, \<^verbatim>\<open>registerEvaluator\<close> and
  \<^verbatim>\<open>registerEvent\<close> belong to the host library. They are modelled as the runtimes of
  the repository's own tests implement them (a push onto the host array, respectively
  onto the handler array of the event), or as rejecting with a message where
  \<open>hostFault\<close> says so. \<^verbatim>\<open>emitEvent\<close> only records the notification.
\<close>

definition emitEvent :: "LifecycleEvent \<Rightarrow> Manager \<Rightarrow> Manager" where
  "emitEvent ev s = s\<lparr>runtime := (runtime s)\<lparr>emitted := emitted (runtime s) @ [ev]\<rparr>\<rparr>"

definition registerEvent ::
  "string \<Rightarrow> handler \<Rightarrow> (string \<times> handler list) list \<Rightarrow> (string \<times> handler list) list" where
  "registerEvent e h evs =
     AList.update e ((case map_of evs e of None \<Rightarrow> [] | Some hs \<Rightarrow> hs) @ [h]) evs"

text \<open>
  Modelled from the spec: \<^verbatim>\<open>coreExtensions.ts\<close>, which installs \<^verbatim>\<open>unregisterEvent\<close> on
  the runtime, is not among the sources. The spec has the host event bus unregister
  exactly the given handler reference, not the whole event; the tests of the extension
  and the event-handler tests add that the event entry is deleted once no handler is
  left and that an unknown event is ignored.
\<close>

definition unregisterEvent ::
  "string \<Rightarrow> handler \<Rightarrow> (string \<times> handler list) list \<Rightarrow> (string \<times> handler list) list" where
  "unregisterEvent e h evs =
     (case map_of evs e of
        None \<Rightarrow> evs
      | Some hs \<Rightarrow>
          (let filtered = filter (\<lambda>x. x \<noteq> h) hs
           in if filtered \<noteq> [] then AList.update e filtered evs else AList.delete e evs))"

section \<open>Array helpers\<close>

fun findIndex :: "('a \<Rightarrow> bool) \<Rightarrow> 'a list \<Rightarrow> nat option" where
  "findIndex P [] = None"
| "findIndex P (x # xs) = (if P x then Some 0 else map_option Suc (findIndex P xs))"

text \<open>\<^verbatim>\<open>xs.splice(i, 1)\<close>\<close>

definition splice1 :: "nat \<Rightarrow> 'a list \<Rightarrow> 'a list" where
  "splice1 i xs = take i xs @ drop (Suc i) xs"

text \<open>\<^verbatim>\<open>Set.add\<close> on a set kept in insertion order.\<close>

definition set_add :: "'a \<Rightarrow> 'a list \<Rightarrow> 'a list" where
  "set_add x xs = (if x \<in> set xs then xs else xs @ [x])"

section \<open>Plugin state store\<close>

definition getPlugin :: "string \<Rightarrow> Manager \<Rightarrow> PluginState option" where
  "getPlugin i s = map_of (plugins s) i"

definition getAllPlugins :: "Manager \<Rightarrow> PluginState list" where
  "getAllPlugins s = map snd (plugins s)"

definition getLoadedPlugins :: "Manager \<Rightarrow> PluginState list" where
  "getLoadedPlugins s = filter (\<lambda>p. status p = LOADED) (getAllPlugins s)"

text \<open>The partial update \<^verbatim>\<open>{ ...existing, ...update }\<close> is a function on the record.\<close>

definition updatePluginState ::
  "string \<Rightarrow> (PluginState \<Rightarrow> PluginState) \<Rightarrow> Manager \<Rightarrow> Manager" where
  "updatePluginState i upd s =
     (case map_of (plugins s) i of
        None \<Rightarrow> s
      | Some existing \<Rightarrow> s\<lparr>plugins := AList.update i (upd existing) (plugins s)\<rparr>)"

definition getPluginComponents :: "string \<Rightarrow> Manager \<Rightarrow> PluginComponents option" where
  "getPluginComponents i s = map_option components (map_of (plugins s) i)"

definition getComponentRegistrations :: "string \<Rightarrow> Manager \<Rightarrow> ComponentRegistration list" where
  "getComponentRegistrations i s =
     (case map_of (componentRegistry s) i of None \<Rightarrow> [] | Some rs \<Rightarrow> rs)"

definition trackComponentRegistration ::
  "string \<Rightarrow> ComponentType \<Rightarrow> string \<Rightarrow> int \<Rightarrow>
   (string \<times> ComponentRegistration list) list \<Rightarrow> (string \<times> ComponentRegistration list) list" where
  "trackComponentRegistration pid ty nm now reg =
     AList.update pid
       ((case map_of reg pid of None \<Rightarrow> [] | Some rs \<Rightarrow> rs) @
        [\<lparr>pluginId = pid, componentType = ty, componentName = nm, timestamp = now\<rparr>]) reg"

text \<open>
  \<^verbatim>\<open>Array.from(this.plugins.values()).find((p) => p.plugin === plugin)\<close>: the first
  record, in insertion order, that holds the plugin object, with its key. Object identity
  is equality of the plugin value; the found record is written back under its key.
\<close>

definition find_state :: "Plugin \<Rightarrow> (string \<times> PluginState) list \<Rightarrow> (string \<times> PluginState) option" where
  "find_state p ps = List.find (\<lambda>kv. plugin (snd kv) = Some p) ps"

section \<open>Construction\<close>

definition emptyComponents :: PluginComponents where
  "emptyComponents =
     \<lparr>c_actions = {}, c_providers = {}, c_evaluators = {}, c_services = {}, c_eventHandlers = []\<rparr>"

definition names_of :: "Component list option \<Rightarrow> string set" where
  "names_of cs = (case cs of None \<Rightarrow> {} | Some xs \<Rightarrow> set (map cname xs))"

definition service_types_of :: "ServiceClass list option \<Rightarrow> string set" where
  "service_types_of cs = (case cs of None \<Rightarrow> {} | Some xs \<Rightarrow> set (map serviceType xs))"

definition original_state :: "Runtime \<Rightarrow> int \<Rightarrow> Plugin \<Rightarrow> PluginState" where
  "original_state rt now p =
     \<lparr>s_id = createUniqueUuid rt (p_name p), s_name = p_name p, status = LOADED,
      plugin = Some p, missingEnvVars = [], buildLog = [], createdAt = now,
      loadedAt = Some now, unloadedAt = None, error = None,
      components =
        \<lparr>c_actions = names_of (p_actions p), c_providers = names_of (p_providers p),
         c_evaluators = names_of (p_evaluators p), c_services = service_types_of (p_services p),
         c_eventHandlers = []\<rparr>\<rparr>"

fun initializeRegistry ::
  "Runtime \<Rightarrow> int \<Rightarrow> Plugin list \<Rightarrow> (string \<times> PluginState) list \<Rightarrow> (string \<times> PluginState) list" where
  "initializeRegistry rt now [] ps = ps"
| "initializeRegistry rt now (p # rest) ps =
     initializeRegistry rt now rest
       (AList.update (createUniqueUuid rt (p_name p)) (original_state rt now p) ps)"

definition merge_config :: "PluginManagerConfig option \<Rightarrow> PluginManagerConfig" where
  "merge_config config =
     (let d = \<lparr>maxBuildAttempts = Some 3, buildTimeout = Some 60000,
               pluginDirectory = Some ''./plugins'', enableHotReload = Some True\<rparr>
      in case config of
           None \<Rightarrow> d
         | Some c \<Rightarrow>
             \<lparr>maxBuildAttempts = (case maxBuildAttempts c of None \<Rightarrow> maxBuildAttempts d | Some v \<Rightarrow> Some v),
              buildTimeout = (case buildTimeout c of None \<Rightarrow> buildTimeout d | Some v \<Rightarrow> Some v),
              pluginDirectory = (case pluginDirectory c of None \<Rightarrow> pluginDirectory d | Some v \<Rightarrow> Some v),
              enableHotReload = (case enableHotReload c of None \<Rightarrow> enableHotReload d | Some v \<Rightarrow> Some v)\<rparr>)"

text \<open>The constructor: \<^verbatim>\<open>storeOriginalComponents\<close> and \<^verbatim>\<open>initializeRegistry\<close>.\<close>

definition new_PluginManagerService ::
  "(handler \<Rightarrow> Runtime \<Rightarrow> string option \<times> Runtime) \<Rightarrow> Runtime \<Rightarrow>
   PluginManagerConfig option \<Rightarrow> int \<Rightarrow> Manager" where
  "new_PluginManagerService code rt config now =
     \<lparr>initCode = code,
      runtime = rt,
      plugins = initializeRegistry rt now (r_plugins rt) [],
      pluginManagerConfig = merge_config config,
      originalPlugins = r_plugins rt,
      originalActions = set (map cname (r_actions rt)),
      originalProviders = set (map cname (r_providers rt)),
      originalEvaluators = set (map cname (r_evaluators rt)),
      originalServices = set (map fst (r_services rt)),
      installedPlugins = [],
      componentRegistry = []\<rparr>"

section \<open>Component registration\<close>

type_synonym creg = "(string \<times> ComponentRegistration list) list"

text \<open>
  One loop of \<^verbatim>\<open>registerPluginComponents\<close> over the declared actions (providers,
  evaluators): register with the host, add the name to the plugin's component set,
  append the audit entry. The loop works on the host array, the component set and the
  audit trail; a rejected host call leaves the loop with what was done so far.
\<close>

fun register_named ::
  "(string \<Rightarrow> string option) \<Rightarrow> ComponentType \<Rightarrow> string \<Rightarrow> int \<Rightarrow> Component list \<Rightarrow>
   Component list \<times> string set \<times> creg \<Rightarrow> string option \<times> Component list \<times> string set \<times> creg" where
  "register_named fault ty pid now [] ctx = (None, ctx)"
| "register_named fault ty pid now (c # cs) (host, owned, reg) =
     (case fault (cname c) of
        Some m \<Rightarrow> (Some m, host, owned, reg)
      | None \<Rightarrow>
          register_named fault ty pid now cs
            (host @ [c], insert (cname c) owned,
             trackComponentRegistration pid ty (cname c) now reg))"

fun register_handlers ::
  "(HostCall \<Rightarrow> string option) \<Rightarrow> string \<Rightarrow> int \<Rightarrow> string \<Rightarrow> handler list \<Rightarrow>
   (string \<times> handler list) list \<times> (string \<times> handler list) list \<times> creg \<Rightarrow>
   string option \<times> (string \<times> handler list) list \<times> (string \<times> handler list) list \<times> creg" where
  "register_handlers fault pid now e [] ctx = (None, ctx)"
| "register_handlers fault pid now e (h # hs) (evs, own, reg) =
     (case fault (RegisterEvent e h) of
        Some m \<Rightarrow> (Some m, evs, own, reg)
      | None \<Rightarrow>
          register_handlers fault pid now e hs
            (registerEvent e h evs,
             AList.update e (set_add h (case map_of own e of None \<Rightarrow> [] | Some x \<Rightarrow> x)) own,
             trackComponentRegistration pid EventHandlerT e now reg))"

fun register_events ::
  "(HostCall \<Rightarrow> string option) \<Rightarrow> string \<Rightarrow> int \<Rightarrow> (string \<times> handler list) list \<Rightarrow>
   (string \<times> handler list) list \<times> (string \<times> handler list) list \<times> creg \<Rightarrow>
   string option \<times> (string \<times> handler list) list \<times> (string \<times> handler list) list \<times> creg" where
  "register_events fault pid now [] ctx = (None, ctx)"
| "register_events fault pid now ((e, hs) # rest) (evs, own, reg) =
     (case register_handlers fault pid now e hs
             (evs, if map_of own e = None then AList.update e [] own else own, reg) of
        (Some m, ctx') \<Rightarrow> (Some m, ctx')
      | (None, ctx') \<Rightarrow> register_events fault pid now rest ctx')"

text \<open>A service whose \<^verbatim>\<open>start\<close> throws is logged and skipped: the loop goes on.\<close>

fun register_services ::
  "string \<Rightarrow> int \<Rightarrow> ServiceClass list \<Rightarrow>
   (string \<times> Service) list \<times> string set \<times> creg \<Rightarrow> (string \<times> Service) list \<times> string set \<times> creg" where
  "register_services pid now [] ctx = ctx"
| "register_services pid now (sc # scs) (svcs, owned, reg) =
     (case start sc of
        Inl m \<Rightarrow> register_services pid now scs (svcs, owned, reg)
      | Inr service \<Rightarrow>
          register_services pid now scs
            (AList.update (serviceType sc) service svcs, insert (serviceType sc) owned,
             trackComponentRegistration pid ServiceT (serviceType sc) now reg))"

text \<open>What \<^verbatim>\<open>registerPluginComponents\<close> works on: the runtime, the component set of the
  record found, and the audit trail.\<close>

record RegCtx =
  x_rt :: Runtime
  x_comps :: PluginComponents
  x_reg :: creg

definition reg_actions :: "Plugin \<Rightarrow> string \<Rightarrow> int \<Rightarrow> RegCtx \<Rightarrow> string option \<times> RegCtx" where
  "reg_actions p pid now c =
     (case p_actions p of
        None \<Rightarrow> (None, c)
      | Some as \<Rightarrow>
          (case register_named (\<lambda>n. hostFault (x_rt c) (RegisterAction n)) ActionT pid now as
                  (r_actions (x_rt c), c_actions (x_comps c), x_reg c) of
             (r, host, owned, reg) \<Rightarrow>
               (r, c\<lparr>x_rt := (x_rt c)\<lparr>r_actions := host\<rparr>,
                     x_comps := (x_comps c)\<lparr>c_actions := owned\<rparr>, x_reg := reg\<rparr>)))"

definition reg_providers :: "Plugin \<Rightarrow> string \<Rightarrow> int \<Rightarrow> RegCtx \<Rightarrow> string option \<times> RegCtx" where
  "reg_providers p pid now c =
     (case p_providers p of
        None \<Rightarrow> (None, c)
      | Some as \<Rightarrow>
          (case register_named (\<lambda>n. hostFault (x_rt c) (RegisterProvider n)) ProviderT pid now as
                  (r_providers (x_rt c), c_providers (x_comps c), x_reg c) of
             (r, host, owned, reg) \<Rightarrow>
               (r, c\<lparr>x_rt := (x_rt c)\<lparr>r_providers := host\<rparr>,
                     x_comps := (x_comps c)\<lparr>c_providers := owned\<rparr>, x_reg := reg\<rparr>)))"

definition reg_evaluators :: "Plugin \<Rightarrow> string \<Rightarrow> int \<Rightarrow> RegCtx \<Rightarrow> string option \<times> RegCtx" where
  "reg_evaluators p pid now c =
     (case p_evaluators p of
        None \<Rightarrow> (None, c)
      | Some as \<Rightarrow>
          (case register_named (\<lambda>n. hostFault (x_rt c) (RegisterEvaluator n)) EvaluatorT pid now as
                  (r_evaluators (x_rt c), c_evaluators (x_comps c), x_reg c) of
             (r, host, owned, reg) \<Rightarrow>
               (r, c\<lparr>x_rt := (x_rt c)\<lparr>r_evaluators := host\<rparr>,
                     x_comps := (x_comps c)\<lparr>c_evaluators := owned\<rparr>, x_reg := reg\<rparr>)))"

definition reg_events :: "Plugin \<Rightarrow> string \<Rightarrow> int \<Rightarrow> RegCtx \<Rightarrow> string option \<times> RegCtx" where
  "reg_events p pid now c =
     (case p_events p of
        None \<Rightarrow> (None, c)
      | Some es \<Rightarrow>
          (case register_events (hostFault (x_rt c)) pid now es
                  (r_events (x_rt c), c_eventHandlers (x_comps c), x_reg c) of
             (r, evs, own, reg) \<Rightarrow>
               (r, c\<lparr>x_rt := (x_rt c)\<lparr>r_events := evs\<rparr>,
                     x_comps := (x_comps c)\<lparr>c_eventHandlers := own\<rparr>, x_reg := reg\<rparr>)))"

definition reg_services :: "Plugin \<Rightarrow> string \<Rightarrow> int \<Rightarrow> RegCtx \<Rightarrow> RegCtx" where
  "reg_services p pid now c =
     (case p_services p of
        None \<Rightarrow> c
      | Some scs \<Rightarrow>
          (case register_services pid now scs
                  (r_services (x_rt c), c_services (x_comps c), x_reg c) of
             (svcs, owned, reg) \<Rightarrow>
               c\<lparr>x_rt := (x_rt c)\<lparr>r_services := svcs\<rparr>,
                 x_comps := (x_comps c)\<lparr>c_services := owned\<rparr>, x_reg := reg\<rparr>))"

text \<open>Sequencing of steps that may throw: the first error ends the sequence.\<close>

definition and_then ::
  "string option \<times> RegCtx \<Rightarrow> (RegCtx \<Rightarrow> string option \<times> RegCtx) \<Rightarrow> string option \<times> RegCtx" where
  "and_then r f = (case fst r of Some m \<Rightarrow> r | None \<Rightarrow> f (snd r))"

definition push_plugin :: "Plugin \<Rightarrow> RegCtx \<Rightarrow> RegCtx" where
  "push_plugin p c = c\<lparr>x_rt := (x_rt c)\<lparr>r_plugins := r_plugins (x_rt c) @ [p]\<rparr>\<rparr>"

definition register_all :: "Plugin \<Rightarrow> string \<Rightarrow> int \<Rightarrow> RegCtx \<Rightarrow> string option \<times> RegCtx" where
  "register_all p pid now c =
     and_then (and_then (and_then (and_then (reg_actions p pid now c)
       (reg_providers p pid now)) (reg_evaluators p pid now)) (reg_events p pid now))
       (\<lambda>c4. (None, push_plugin p (reg_services p pid now c4)))"

definition registerPluginComponents :: "Plugin \<Rightarrow> int \<Rightarrow> Manager \<Rightarrow> error option \<times> Manager" where
  "registerPluginComponents p now s =
     (case find_state p (plugins s) of
        None \<Rightarrow> (Some StateNotFound, s)
      | Some (k, st) \<Rightarrow>
          (case register_all p (s_id st) now
                  \<lparr>x_rt = runtime s, x_comps = components st, x_reg = componentRegistry s\<rparr> of
             (r, c) \<Rightarrow>
               (map_option Thrown r,
                s\<lparr>runtime := x_rt c,
                  plugins := AList.update k (st\<lparr>components := x_comps c\<rparr>) (plugins s),
                  componentRegistry := x_reg c\<rparr>)))"

section \<open>Component unregistration\<close>

text \<open>
  One loop of \<^verbatim>\<open>unregisterPluginComponents\<close> over the declared actions (providers,
  evaluators): a name outside the original set is looked up in the host array and, when
  found, spliced out and deleted from the plugin's component set.
\<close>

fun unregister_named ::
  "string set \<Rightarrow> Component list \<Rightarrow> Component list \<times> string set \<Rightarrow> Component list \<times> string set" where
  "unregister_named orig [] ctx = ctx"
| "unregister_named orig (c # cs) (host, owned) =
     (if cname c \<notin> orig then
        (case findIndex (\<lambda>a. cname a = cname c) host of
           Some i \<Rightarrow> unregister_named orig cs (splice1 i host, owned - {cname c})
         | None \<Rightarrow> unregister_named orig cs (host, owned))
      else unregister_named orig cs (host, owned))"

fun unregister_handlers ::
  "string \<Rightarrow> handler list \<Rightarrow> (string \<times> handler list) list \<Rightarrow> (string \<times> handler list) list" where
  "unregister_handlers e [] evs = evs"
| "unregister_handlers e (h # hs) evs = unregister_handlers e hs (unregisterEvent e h evs)"

fun unregister_events ::
  "(string \<times> handler list) list \<Rightarrow> (string \<times> handler list) list \<Rightarrow> (string \<times> handler list) list" where
  "unregister_events [] evs = evs"
| "unregister_events ((e, hs) # rest) evs = unregister_events rest (unregister_handlers e hs evs)"

text \<open>The service's \<^verbatim>\<open>stop()\<close> is awaited inside its own try: whether it returns or throws,
  the service is deleted from the host table and from the component set.\<close>

fun unregister_services ::
  "string set \<Rightarrow> ServiceClass list \<Rightarrow> (string \<times> Service) list \<times> string set \<Rightarrow>
   (string \<times> Service) list \<times> string set" where
  "unregister_services orig [] ctx = ctx"
| "unregister_services orig (sc # scs) (svcs, owned) =
     (if serviceType sc \<notin> orig then
        (case map_of svcs (serviceType sc) of
           Some service \<Rightarrow>
             (case stop service of
                Some m \<Rightarrow> unregister_services orig scs
                            (AList.delete (serviceType sc) svcs, owned - {serviceType sc})
              | None \<Rightarrow> unregister_services orig scs
                            (AList.delete (serviceType sc) svcs, owned - {serviceType sc}))
         | None \<Rightarrow> unregister_services orig scs (svcs, owned))
      else unregister_services orig scs (svcs, owned))"

definition unreg_list ::
  "string set \<Rightarrow> Component list option \<Rightarrow> Component list \<times> string set \<Rightarrow> Component list \<times> string set" where
  "unreg_list orig declared ctx =
     (case declared of None \<Rightarrow> ctx | Some cs \<Rightarrow> unregister_named orig cs ctx)"

definition unreg_events ::
  "(string \<times> handler list) list \<Rightarrow> (string \<times> handler list) list \<Rightarrow> (string \<times> handler list) list" where
  "unreg_events own evs = (if own \<noteq> [] then unregister_events own evs else evs)"

definition unreg_services ::
  "string set \<Rightarrow> ServiceClass list option \<Rightarrow> (string \<times> Service) list \<times> string set \<Rightarrow>
   (string \<times> Service) list \<times> string set" where
  "unreg_services orig declared ctx =
     (case declared of None \<Rightarrow> ctx | Some scs \<Rightarrow> unregister_services orig scs ctx)"

definition remove_plugin :: "Plugin \<Rightarrow> Plugin list \<Rightarrow> Plugin list" where
  "remove_plugin p ps =
     (case findIndex (\<lambda>q. p_name q = p_name p) ps of None \<Rightarrow> ps | Some i \<Rightarrow> splice1 i ps)"

definition unregisterPluginComponents :: "Plugin \<Rightarrow> Manager \<Rightarrow> Manager" where
  "unregisterPluginComponents p s =
     (case find_state p (plugins s) of
        None \<Rightarrow> s
      | Some (k, st) \<Rightarrow>
          (let rt = runtime s; c = components st;
               a = unreg_list (originalActions s) (p_actions p) (r_actions rt, c_actions c);
               pr = unreg_list (originalProviders s) (p_providers p) (r_providers rt, c_providers c);
               ev = unreg_list (originalEvaluators s) (p_evaluators p) (r_evaluators rt, c_evaluators c);
               evs = unreg_events (c_eventHandlers c) (r_events rt);
               sv = unreg_services (originalServices s) (p_services p) (r_services rt, c_services c)
           in s\<lparr>runtime := rt\<lparr>r_actions := fst a, r_providers := fst pr, r_evaluators := fst ev,
                              r_events := evs, r_services := fst sv,
                              r_plugins := remove_plugin p (r_plugins rt)\<rparr>,
                plugins := AList.update k
                  (st\<lparr>components :=
                       \<lparr>c_actions = snd a, c_providers = snd pr, c_evaluators = snd ev,
                        c_services = snd sv, c_eventHandlers = []\<rparr>\<rparr>) (plugins s),
                componentRegistry := AList.delete (s_id st) (componentRegistry s)\<rparr>))"

section \<open>Lifecycle operations\<close>

text \<open>\<^verbatim>\<open>if (plugin.init) await plugin.init({}, this.runtime)\<close>: the hook works on the
  host, and may throw after it has changed it.\<close>

definition run_init :: "Plugin \<Rightarrow> Manager \<Rightarrow> string option \<times> Manager" where
  "run_init p s =
     (case p_init p of
        None \<Rightarrow> (None, s)
      | Some h \<Rightarrow> (fst (initCode s h (runtime s)), s\<lparr>runtime := snd (initCode s h (runtime s))\<rparr>))"

text \<open>The \<^verbatim>\<open>catch\<close> of \<^verbatim>\<open>loadPlugin\<close>: record the failure, notify, re-raise.\<close>

definition load_failed :: "string \<Rightarrow> string \<Rightarrow> error \<Rightarrow> Manager \<Rightarrow> (error + unit) \<times> Manager" where
  "load_failed i n e s =
     (Inl e,
      emitEvent (PLUGIN_ERROR i n (error_message e))
        (updatePluginState i (\<lambda>x. x\<lparr>status := ERROR, error := Some (error_message e)\<rparr>) s))"

definition loadPlugin :: "string \<Rightarrow> bool \<Rightarrow> int \<Rightarrow> Manager \<Rightarrow> (error + unit) \<times> Manager" where
  "loadPlugin i force now s =
     (case map_of (plugins s) i of
        None \<Rightarrow> (Inl (NotFound i), s)
      | Some pluginState \<Rightarrow>
          if status pluginState = LOADED \<and> \<not> force then (Inr (), s)
          else if status pluginState \<noteq> READY \<and> status pluginState \<noteq> UNLOADED \<and> \<not> force
            then (Inl (InvalidState (s_name pluginState) (status pluginState)), s)
          else
            (case plugin pluginState of
               None \<Rightarrow> (Inl (MissingInstance (s_name pluginState)), s)
             | Some p \<Rightarrow>
                 (let s1 = emitEvent (PLUGIN_BUILDING i (s_name pluginState)) s
                  in case run_init p s1 of
                       (Some m, s1') \<Rightarrow> load_failed i (s_name pluginState) (Thrown m) s1'
                     | (None, s1') \<Rightarrow>
                         (case registerPluginComponents p now s1' of
                            (Some e, s2) \<Rightarrow> load_failed i (s_name pluginState) e s2
                          | (None, s2) \<Rightarrow>
                              (Inr (),
                               emitEvent (PLUGIN_LOADED i (s_name pluginState))
                                 (updatePluginState i
                                    (\<lambda>x. x\<lparr>status := LOADED, loadedAt := Some now, error := None\<rparr>)
                                    s2))))))"

definition unloadPlugin :: "string \<Rightarrow> int \<Rightarrow> Manager \<Rightarrow> (error + unit) \<times> Manager" where
  "unloadPlugin i now s =
     (case map_of (plugins s) i of
        None \<Rightarrow> (Inl (NotFound i), s)
      | Some pluginState \<Rightarrow>
          if status pluginState \<noteq> LOADED then (Inr (), s)
          else if \<exists>p \<in> set (originalPlugins s). p_name p = s_name pluginState
            then (Inl (ProtectedPlugin (s_name pluginState)), s)
          else
            (case plugin pluginState of
               None \<Rightarrow>
                 (Inl (MissingInstance (s_name pluginState)),
                  updatePluginState i
                    (\<lambda>x. x\<lparr>status := ERROR,
                           error := Some (error_message (MissingInstance (s_name pluginState)))\<rparr>) s)
             | Some p \<Rightarrow>
                 (Inr (),
                  emitEvent (PLUGIN_UNLOADED i (s_name pluginState))
                    (updatePluginState i (\<lambda>x. x\<lparr>status := UNLOADED, unloadedAt := Some now\<rparr>)
                       (unregisterPluginComponents p s)))))"

definition registerPlugin :: "Plugin \<Rightarrow> int \<Rightarrow> Manager \<Rightarrow> (error + string) \<times> Manager" where
  "registerPlugin p now s =
     (let i = createUniqueUuid (runtime s) (p_name p)
      in if map_of (plugins s) i \<noteq> None then (Inl (AlreadyRegistered (p_name p)), s)
         else
           (Inr i,
            emitEvent (PLUGIN_READY i (p_name p))
              (s\<lparr>plugins := AList.update i
                   \<lparr>s_id = i, s_name = p_name p, status = READY, plugin = Some p,
                    missingEnvVars = [], buildLog = [], createdAt = now, loadedAt = None,
                    unloadedAt = None, error = None, components = emptyComponents\<rparr>
                   (plugins s)\<rparr>)))"

section \<open>Registry client\<close>

text \<open>
  The registry index maps plugin names to entries. A call to \<^verbatim>\<open>fetch\<close> and the decoding
  of its response end in one of four ways; the module-level \<^verbatim>\<open>registryCache\<close> is a
  state component of its own, passed to and returned by the functions that touch it.
\<close>

record NpmRef =
  npm_repo :: string
  npm_v1 :: "string option"

record GitVersion =
  git_branch :: "string option"
  git_version :: "string option"

record GitRef =
  git_repo :: string
  git_v1 :: "GitVersion option"

record RegistryEntry =
  e_name :: string
  e_description :: "string option"
  e_repository :: string
  npm :: "NpmRef option"
  git :: "GitRef option"

type_synonym catalog = "(string \<times> RegistryEntry) list"

record RegistryCache =
  cache_data :: catalog
  cache_timestamp :: int

datatype FetchOutcome =
    NetworkError string
  | HttpError string
  | BadJson string
  | FetchOk catalog

definition CACHE_DURATION :: int where
  "CACHE_DURATION = 3600000"

definition resetRegistryCache :: "RegistryCache option" where
  "resetRegistryCache = None"

text \<open>The body of the \<^verbatim>\<open>try\<close> block of \<^verbatim>\<open>getLocalRegistryIndex\<close>, up to the decoded data.\<close>

definition fetch_registry :: "FetchOutcome \<Rightarrow> error + catalog" where
  "fetch_registry out =
     (case out of
        NetworkError m \<Rightarrow> Inl (Thrown m)
      | HttpError statusText \<Rightarrow> Inl (Thrown (''Registry fetch failed: '' @ statusText))
      | BadJson m \<Rightarrow> Inl (Thrown m)
      | FetchOk d \<Rightarrow> Inr d)"

definition getLocalRegistryIndex ::
  "int \<Rightarrow> FetchOutcome \<Rightarrow> RegistryCache option \<Rightarrow> (error + catalog) \<times> RegistryCache option" where
  "getLocalRegistryIndex now out cache =
     (if (case cache of None \<Rightarrow> False | Some c \<Rightarrow> now - cache_timestamp c < CACHE_DURATION)
      then (case cache of None \<Rightarrow> (Inr [], cache) | Some c \<Rightarrow> (Inr (cache_data c), cache))
      else
        (case fetch_registry out of
           Inr d \<Rightarrow> (Inr d, Some \<lparr>cache_data = d, cache_timestamp = now\<rparr>)
         | Inl e \<Rightarrow>
             (case cache of
                Some c \<Rightarrow> (Inr (cache_data c), cache)
              | None \<Rightarrow> (Inr [], cache))))"

definition getAvailablePluginsFromRegistry ::
  "int \<Rightarrow> FetchOutcome \<Rightarrow> RegistryCache option \<Rightarrow> (error + catalog) \<times> RegistryCache option" where
  "getAvailablePluginsFromRegistry now out cache = getLocalRegistryIndex now out cache"

text \<open>A run of calls, each with its clock reading and with what a fetch would end in.\<close>

fun registry_calls :: "(int \<times> FetchOutcome) list \<Rightarrow> RegistryCache option \<Rightarrow> RegistryCache option" where
  "registry_calls [] cache = cache"
| "registry_calls ((now, out) # rest) cache =
     registry_calls rest (snd (getLocalRegistryIndex now out cache))"

section \<open>The world outside the process\<close>

text \<open>
  File system, external commands and dynamic import are results given by the world:
  each operation returns, or throws the message given. A manifest is the part of
  \<^verbatim>\<open>package.json\<close> the service reads; an export of a module is a plugin-shaped object
  or something else. The world also holds
  the values of the configuration variables (the process environment and the settings
  of the host); no function of the service reads them.
\<close>

record EnvVarDecl =
  d_name :: string
  d_description :: string
  d_sensitive :: "bool option"

record PackageJson =
  pj_name :: "string option"
  pj_version :: "string option"
  pj_main :: "string option"
  pj_requiredEnvVars :: "EnvVarDecl list option"

datatype Export = NotAnObject | PluginObject Plugin

record World =
  w_fetch :: FetchOutcome
  w_cwd :: string
  w_ensureDir :: "string \<Rightarrow> string option"
  w_execa :: "string \<Rightarrow> string list \<Rightarrow> string \<Rightarrow> string option"
  w_readJson :: "string \<Rightarrow> string + PackageJson option"
  w_pathExists :: "string \<Rightarrow> bool"
  w_isDirectory :: "string \<Rightarrow> bool"
  w_copy :: "string \<Rightarrow> string \<Rightarrow> string option"
  w_remove :: "string \<Rightarrow> string option"
  w_import :: "string \<Rightarrow> string + (string \<times> Export) list"
  w_env :: "string \<Rightarrow> string option"

text \<open>JavaScript truthiness of an optional string, and \<^verbatim>\<open>a || b\<close> on such values.\<close>

definition truthy :: "string option \<Rightarrow> bool" where
  "truthy v = (case v of None \<Rightarrow> False | Some x \<Rightarrow> x \<noteq> [])"

definition or_else :: "string option \<Rightarrow> string option \<Rightarrow> string option" where
  "or_else a b = (if truthy a then a else b)"

definition or_default :: "string option \<Rightarrow> string \<Rightarrow> string" where
  "or_default a d = (case a of None \<Rightarrow> d | Some x \<Rightarrow> if x = [] then d else x)"

text \<open>
  The POSIX functions of Node's \<^verbatim>\<open>path\<close> module. \<open>normalizeString\<close> walks the segments
  of a path: empty segments and \<open>.\<close> are dropped, \<open>..\<close> removes the segment before it, or is
  kept when there is none and the path is relative. The accumulator holds the segments
  kept so far, last one first.
\<close>

fun split_acc :: "string \<Rightarrow> string \<Rightarrow> string list" where
  "split_acc cur [] = [rev cur]"
| "split_acc cur (c # cs) =
     (if c = CHR ''/'' then rev cur # split_acc [] cs else split_acc (c # cur) cs)"

definition split_slash :: "string \<Rightarrow> string list" where
  "split_slash p = split_acc [] p"

fun join_slash :: "string list \<Rightarrow> string" where
  "join_slash [] = []"
| "join_slash [x] = x"
| "join_slash (x # y # rest) = x @ ''/'' @ join_slash (y # rest)"

fun normalizeString :: "bool \<Rightarrow> string list \<Rightarrow> string list \<Rightarrow> string list" where
  "normalizeString allowAboveRoot [] acc = rev acc"
| "normalizeString allowAboveRoot (seg # rest) acc =
     (if seg = [] \<or> seg = ''.'' then normalizeString allowAboveRoot rest acc
      else if seg = ''..'' then
        (case acc of
           [] \<Rightarrow> normalizeString allowAboveRoot rest (if allowAboveRoot then [seg] else [])
         | prev # below \<Rightarrow>
             if prev = ''..'' then normalizeString allowAboveRoot rest (seg # acc)
             else normalizeString allowAboveRoot rest below)
      else normalizeString allowAboveRoot rest (seg # acc))"

definition isAbsolute :: "string \<Rightarrow> bool" where
  "isAbsolute p = (case p of [] \<Rightarrow> False | c # cs \<Rightarrow> c = CHR ''/'')"

definition normalize :: "string \<Rightarrow> string" where
  "normalize p =
     (if p = [] then ''.''
      else
        (let trailingSeparator = (last p = CHR ''/'');
             body = join_slash (normalizeString (\<not> isAbsolute p) (split_slash p) [])
         in if body = [] then
              (if isAbsolute p then ''/'' else if trailingSeparator then ''./'' else ''.'')
            else (if isAbsolute p then ''/'' else []) @ body @
                 (if trailingSeparator then ''/'' else [])))"

definition path_join :: "string list \<Rightarrow> string" where
  "path_join paths =
     (let joined = join_slash (filter (\<lambda>a. a \<noteq> []) paths)
      in if joined = [] then ''.'' else normalize joined)"

text \<open>\<^verbatim>\<open>path.dirname\<close>: trailing separators are not part of the last segment, and the
  first character is never taken for the separator that ends the directory.\<close>

definition dirname :: "string \<Rightarrow> string" where
  "dirname p =
     (if p = [] then ''.''
      else
        (let hasRoot = (hd p = CHR ''/'');
             t = rev (dropWhile (\<lambda>c. c = CHR ''/'') (rev (tl p)))
         in if CHR ''/'' \<notin> set t then (if hasRoot then ''/'' else ''.'')
            else
              (let d = rev (tl (dropWhile (\<lambda>c. c \<noteq> CHR ''/'') (rev t)))
               in if hasRoot \<and> d = [] then ''//'' else hd p # d)))"

text \<open>\<^verbatim>\<open>path.resolve\<close>: the arguments are taken from the last one back until the path is
  absolute, the working directory coming after the first one.\<close>

fun resolve_from :: "string list \<Rightarrow> string \<Rightarrow> string" where
  "resolve_from [] acc = acc"
| "resolve_from (p # before) acc =
     (if p = [] then resolve_from before acc
      else if isAbsolute p then p @ ''/'' @ acc
      else resolve_from before (p @ ''/'' @ acc))"

definition path_resolve :: "string \<Rightarrow> string list \<Rightarrow> string" where
  "path_resolve cwd paths =
     (let resolvedPath = resolve_from (rev (cwd # paths)) [];
          body = join_slash (normalizeString (\<not> isAbsolute resolvedPath) (split_slash resolvedPath) [])
      in if isAbsolute resolvedPath then ''/'' @ body
         else if body = [] then ''.'' else body)"

fun decimal :: "nat \<Rightarrow> string" where
  "decimal n =
     (if n < 10 then [''0123456789'' ! n]
      else decimal (n div 10) @ [''0123456789'' ! (n mod 10)])"

section \<open>Installer\<close>

definition installFromNpm :: "string \<Rightarrow> string \<Rightarrow> string \<Rightarrow> World \<Rightarrow> error option" where
  "installFromNpm packageName version targetDir w =
     map_option Thrown
       (w_execa w ''npm'' [''install'', packageName @ ''@'' @ version, ''--prefix'', targetDir] '''')"

text \<open>The first step that throws ends a sequence of steps.\<close>

fun first_error :: "string option list \<Rightarrow> string option" where
  "first_error [] = None"
| "first_error (None # rest) = first_error rest"
| "first_error (Some m # rest) = Some m"

text \<open>The clone is made in a temporary directory, which the \<^verbatim>\<open>finally\<close> block removes
  whether the steps succeeded or not; an error of the removal replaces the result.\<close>

definition installFromGit :: "string \<Rightarrow> string \<Rightarrow> string \<Rightarrow> int \<Rightarrow> World \<Rightarrow> error option" where
  "installFromGit gitRepo version targetDir now w =
     (let tempDir = path_join [targetDir, ''..'', ''temp-'' @ decimal (nat now)]
      in case w_ensureDir w tempDir of
           Some m \<Rightarrow> Some (Thrown m)
         | None \<Rightarrow>
             (let body = first_error
                   [w_execa w ''git'' [''clone'', gitRepo, tempDir] '''',
                    if version \<noteq> ''main'' \<and> version \<noteq> ''master''
                      then w_execa w ''git'' [''checkout'', version] tempDir else None,
                    w_execa w ''npm'' [''install''] tempDir,
                    w_copy w tempDir targetDir]
              in case w_remove w tempDir of
                   Some m \<Rightarrow> Some (Thrown m)
                 | None \<Rightarrow> map_option Thrown body))"

definition installPlugin ::
  "string \<Rightarrow> string \<Rightarrow> string option \<Rightarrow> int \<Rightarrow> World \<Rightarrow> RegistryCache option \<Rightarrow>
   error option \<times> RegistryCache option" where
  "installPlugin pluginName targetDir version now w cache =
     (case w_ensureDir w targetDir of
        Some m \<Rightarrow> (Some (Thrown m), cache)
      | None \<Rightarrow>
          (case getLocalRegistryIndex now (w_fetch w) cache of
             (Inl e, cache') \<Rightarrow> (Some e, cache')
           | (Inr registry, cache') \<Rightarrow>
               (case map_of registry pluginName of
                  None \<Rightarrow> (Some (NotInRegistry pluginName), cache')
                | Some entry \<Rightarrow>
                    if truthy (map_option npm_repo (npm entry)) then
                      (installFromNpm (npm_repo (the (npm entry)))
                         (or_default (or_else version (npm_v1 (the (npm entry)))) ''latest'')
                         targetDir w, cache')
                    else if truthy (map_option git_repo (git entry)) then
                      (installFromGit (git_repo (the (git entry)))
                         (or_default
                            (or_else version
                               (case git_v1 (the (git entry)) of
                                  None \<Rightarrow> None
                                | Some v \<Rightarrow> or_else (git_version v) (git_branch v)))
                            ''main'')
                         targetDir now w, cache')
                    else (Some (NoInstallMethod pluginName), cache'))))"

definition safe_chars :: string where
  "safe_chars = ''abcdefghijklmnopqrstuvwxyzABCDEFGHIJKLMNOPQRSTUVWXYZ0123456789-_''"

definition sanitize :: "string \<Rightarrow> string" where
  "sanitize n = map (\<lambda>c. if c \<in> set safe_chars then c else CHR ''_'') n"

definition getPluginInstallPath :: "string \<Rightarrow> Manager \<Rightarrow> string" where
  "getPluginInstallPath pluginName s =
     path_join [or_default (pluginDirectory (pluginManagerConfig s)) ''./plugins'',
                ''installed'', sanitize pluginName]"

record Metadata =
  m_name :: string
  m_version :: string
  m_requiredEnvVars :: "EnvVar list"

text \<open>\<^verbatim>\<open>packageJson.elizaos?.requiredEnvVars || []\<close>\<close>

definition requiredEnvVarsConfig :: "PackageJson \<Rightarrow> EnvVarDecl list" where
  "requiredEnvVarsConfig packageJson =
     (case pj_requiredEnvVars packageJson of None \<Rightarrow> [] | Some vs \<Rightarrow> vs)"

definition parsePluginMetadata :: "string \<Rightarrow> World \<Rightarrow> error + Metadata" where
  "parsePluginMetadata pluginPath w =
     (let packageJsonPath = path_join [pluginPath, ''package.json'']
      in case w_readJson w packageJsonPath of
           Inl m \<Rightarrow> Inl (Thrown m)
         | Inr None \<Rightarrow> Inl (ManifestUnreadable packageJsonPath)
         | Inr (Some packageJson) \<Rightarrow>
             Inr \<lparr>m_name = or_default (pj_name packageJson) ''unknown'',
                  m_version = or_default (pj_version packageJson) ''0.0.0'',
                  m_requiredEnvVars =
                    map (\<lambda>v. \<lparr>ev_name = d_name v, ev_description = d_description v,
                              ev_sensitive = (case d_sensitive v of None \<Rightarrow> False | Some b \<Rightarrow> b),
                              isSet = False\<rparr>)
                      (requiredEnvVarsConfig packageJson)\<rparr>)"

definition plugin_info :: "Metadata \<Rightarrow> string \<Rightarrow> int \<Rightarrow> DynamicPluginInfo" where
  "plugin_info metadata pluginDir now =
     \<lparr>i_name = m_name metadata, i_version = m_version metadata,
      i_status = (if length (m_requiredEnvVars metadata) > 0 then needs_configuration else installed),
      i_path = pluginDir, requiredEnvVars = m_requiredEnvVars metadata,
      errorDetails = None, installedAt = now, lastActivated = None\<rparr>"

definition installPluginFromRegistry ::
  "string \<Rightarrow> string option \<Rightarrow> int \<Rightarrow> World \<Rightarrow> RegistryCache option \<times> Manager \<Rightarrow>
   (error + DynamicPluginInfo) \<times> RegistryCache option \<times> Manager" where
  "installPluginFromRegistry pluginName version now w cs =
     (let cache = fst cs; s = snd cs; pluginDir = getPluginInstallPath pluginName s
      in case w_ensureDir w (dirname pluginDir) of
           Some m \<Rightarrow> (Inl (Thrown m), cache, s)
         | None \<Rightarrow>
             (case installPlugin pluginName pluginDir version now w cache of
                (Some e, cache') \<Rightarrow> (Inl e, cache', s)
              | (None, cache') \<Rightarrow>
                  (case parsePluginMetadata pluginDir w of
                     Inl e \<Rightarrow> (Inl e, cache', s)
                   | Inr metadata \<Rightarrow>
                       (let pluginInfo = plugin_info metadata pluginDir now
                        in (Inr pluginInfo, cache',
                            s\<lparr>installedPlugins :=
                                AList.update pluginName pluginInfo (installedPlugins s)\<rparr>)))))"

definition installFromLocalBundle ::
  "string \<Rightarrow> int \<Rightarrow> World \<Rightarrow> Manager \<Rightarrow> (error + DynamicPluginInfo) \<times> Manager" where
  "installFromLocalBundle bundlePath now w s =
     (if \<not> w_pathExists w bundlePath then (Inl (BundleNotFound bundlePath), s)
      else if \<not> w_isDirectory w bundlePath then (Inl UnsupportedBundleFormat, s)
      else
        (case parsePluginMetadata bundlePath w of
           Inl e \<Rightarrow> (Inl e, s)
         | Inr metadata \<Rightarrow>
             (let pluginName = m_name metadata; pluginDir = getPluginInstallPath pluginName s
              in case first_error
                        [w_ensureDir w (dirname pluginDir),
                         w_copy w bundlePath pluginDir,
                         if \<not> w_pathExists w (path_join [pluginDir, ''node_modules''])
                           then w_execa w ''npm'' [''install''] pluginDir else None] of
                   Some m \<Rightarrow> (Inl (Thrown m), s)
                 | None \<Rightarrow>
                     (let pluginInfo = plugin_info metadata pluginDir now
                      in (Inr pluginInfo,
                          s\<lparr>installedPlugins :=
                              AList.update pluginName pluginInfo (installedPlugins s)\<rparr>)))))"

section \<open>Module loader\<close>

definition isValidPlugin :: "Export \<Rightarrow> bool" where
  "isValidPlugin obj =
     (case obj of
        NotAnObject \<Rightarrow> False
      | PluginObject p \<Rightarrow>
          p_name p \<noteq> [] \<and>
          (p_actions p \<noteq> None \<or> p_services p \<noteq> None \<or> p_providers p \<noteq> None \<or>
           p_evaluators p \<noteq> None \<or> p_init p \<noteq> None))"

definition plugin_of :: "Export \<Rightarrow> Plugin option" where
  "plugin_of obj = (case obj of NotAnObject \<Rightarrow> None | PluginObject p \<Rightarrow> Some p)"

text \<open>Every error inside \<^verbatim>\<open>loadPluginModule\<close> is caught and turned into \<^verbatim>\<open>null\<close>.\<close>

definition loadPluginModule :: "string \<Rightarrow> World \<Rightarrow> Plugin option" where
  "loadPluginModule pluginPath w =
     (let packageJsonPath = path_join [pluginPath, ''package.json''];
          entry =
            (if w_pathExists w packageJsonPath then
               (case w_readJson w packageJsonPath of
                  Inl m \<Rightarrow> None
                | Inr None \<Rightarrow> None
                | Inr (Some packageJson) \<Rightarrow>
                    Some (if truthy (pj_main packageJson)
                          then path_resolve (w_cwd w) [pluginPath, the (pj_main packageJson)]
                          else pluginPath))
             else Some pluginPath)
      in case entry of
           None \<Rightarrow> None
         | Some mainEntry0 \<Rightarrow>
             (let mainEntry = (if \<not> isAbsolute mainEntry0
                               then path_resolve (w_cwd w) [mainEntry0] else mainEntry0)
              in case w_import w mainEntry of
                   Inl m \<Rightarrow> None
                 | Inr exports \<Rightarrow>
                     (case map_of exports ''default'' of
                        Some d \<Rightarrow>
                          if isValidPlugin d then plugin_of d
                          else (case List.find isValidPlugin (map snd exports) of
                                  None \<Rightarrow> None | Some x \<Rightarrow> plugin_of x)
                      | None \<Rightarrow>
                          (case List.find isValidPlugin (map snd exports) of
                             None \<Rightarrow> None | Some x \<Rightarrow> plugin_of x))))"

section \<open>Installed plugins\<close>

definition getInstalledPluginInfo :: "string \<Rightarrow> Manager \<Rightarrow> DynamicPluginInfo option" where
  "getInstalledPluginInfo pluginName s = map_of (installedPlugins s) pluginName"

definition listInstalledPlugins :: "Manager \<Rightarrow> DynamicPluginInfo list" where
  "listInstalledPlugins s = map snd (installedPlugins s)"

text \<open>The \<^verbatim>\<open>catch\<close> of \<^verbatim>\<open>loadInstalledPlugin\<close>: mark the installed record, re-raise.\<close>

definition load_installed_failed ::
  "string \<Rightarrow> DynamicPluginInfo \<Rightarrow> error \<Rightarrow> Manager \<Rightarrow> (error + string) \<times> Manager" where
  "load_installed_failed pluginName pluginInfo e s =
     (Inl e,
      s\<lparr>installedPlugins :=
          AList.update pluginName
            (pluginInfo\<lparr>i_status := error_status, errorDetails := Some (error_message e)\<rparr>)
            (installedPlugins s)\<rparr>)"

definition loadInstalledPlugin ::
  "string \<Rightarrow> int \<Rightarrow> World \<Rightarrow> Manager \<Rightarrow> (error + string) \<times> Manager" where
  "loadInstalledPlugin pluginName now w s =
     (case map_of (installedPlugins s) pluginName of
        None \<Rightarrow> (Inl (NotInstalled pluginName), s)
      | Some pluginInfo \<Rightarrow>
          if i_status pluginInfo = needs_configuration
            then (Inl (ConfigurationRequired pluginName), s)
          else
            (case loadPluginModule (i_path pluginInfo) w of
               None \<Rightarrow> load_installed_failed pluginName pluginInfo ModuleLoadFailed s
             | Some pluginModule \<Rightarrow>
                 (case registerPlugin pluginModule now s of
                    (Inl e, s1) \<Rightarrow> load_installed_failed pluginName pluginInfo e s1
                  | (Inr i, s1) \<Rightarrow>
                      (case loadPlugin i False now s1 of
                         (Inl e, s2) \<Rightarrow> load_installed_failed pluginName pluginInfo e s2
                       | (Inr u, s2) \<Rightarrow>
                           (Inr i,
                            s2\<lparr>installedPlugins :=
                                 AList.update pluginName (pluginInfo\<lparr>i_status := loaded\<rparr>)
                                   (installedPlugins s2)\<rparr>)))))"

section \<open>Vocabulary of the claims\<close>


definition declared :: "'a list option \<Rightarrow> 'a list" where
  "declared d = (case d of None \<Rightarrow> [] | Some cs \<Rightarrow> cs)"

text \<open>The handlers registered on an event bus for an event, and the handlers a component
  set holds for an event.\<close>

definition handlers_on :: "string \<Rightarrow> (string \<times> handler list) list \<Rightarrow> handler list" where
  "handlers_on e evs = (case map_of evs e of None \<Rightarrow> [] | Some hs \<Rightarrow> hs)"

definition handlers_for :: "string \<Rightarrow> (string \<times> handler list) list \<Rightarrow> handler list" where
  "handlers_for e own = concat (map snd (filter (\<lambda>kv. fst kv = e) own))"

text \<open>Whether the static \<^verbatim>\<open>start\<close> of a service class returns an instance.\<close>

definition starts :: "ServiceClass \<Rightarrow> bool" where
  "starts sc = (case start sc of Inl m \<Rightarrow> False | Inr v \<Rightarrow> True)"

text \<open>The steps of \<^verbatim>\<open>registerPluginComponents\<close> that come before the services.\<close>

definition four_steps :: "Plugin \<Rightarrow> string \<Rightarrow> int \<Rightarrow> RegCtx \<Rightarrow> string option \<times> RegCtx" where
  "four_steps p pid now c =
     and_then (and_then (and_then (reg_actions p pid now c)
       (reg_providers p pid now)) (reg_evaluators p pid now)) (reg_events p pid now)"


text \<open>A fetch that fails: the network call rejects, the response is not ok, or its body
  does not decode.\<close>

definition fetch_fails :: "FetchOutcome \<Rightarrow> bool" where
  "fetch_fails out = (case fetch_registry out of Inl e \<Rightarrow> True | Inr d \<Rightarrow> False)"

definition cached_catalog :: "RegistryCache option \<Rightarrow> catalog" where
  "cached_catalog cache = (case cache of None \<Rightarrow> [] | Some c \<Rightarrow> cache_data c)"

text \<open>What an installed record takes from a manifest: the name and the version with their
  defaults, one required variable per declaration, each recorded as not set, and the
  status, which is \<open>needs_configuration\<close> when there is a declaration and \<open>installed\<close>
  when there is none.\<close>

definition record_of_manifest :: "PackageJson \<Rightarrow> DynamicPluginInfo \<Rightarrow> bool" where
  "record_of_manifest pj info =
     (i_name info = or_default (pj_name pj) ''unknown'' \<and>
      i_version info = or_default (pj_version pj) ''0.0.0'' \<and>
      map ev_name (requiredEnvVars info) = map d_name (requiredEnvVarsConfig pj) \<and>
      (\<forall>v \<in> set (requiredEnvVars info). \<not> isSet v) \<and>
      (i_status info = needs_configuration \<longleftrightarrow> requiredEnvVarsConfig pj \<noteq> []) \<and>
      (i_status info = installed \<longleftrightarrow> requiredEnvVarsConfig pj = []))"

section \<open>Example hosts and plugins\<close>

text \<open>The code of three init hooks: hook \<open>1\<close> throws and leaves the host as it is, hook
  \<open>3\<close> pushes an action \<open>h\<close> onto the host's action array and returns, and every other
  hook returns and leaves the host as it is.\<close>

definition code0 :: "handler \<Rightarrow> Runtime \<Rightarrow> string option \<times> Runtime" where
  "code0 h rt =
     (if h = 1 then (Some ''boom'', rt)
      else if h = 3 then (None, rt\<lparr>r_actions := r_actions rt @ [\<lparr>cname = ''h'', cimpl = 9\<rparr>]\<rparr>)
      else (None, rt))"

text \<open>A host that starts with one plugin, \<open>core\<close>, whose init hook throws when it is
  run again, and one action \<open>o\<close>; ids are names prefixed by \<open>#\<close>.\<close>

definition core_plugin :: Plugin where
  "core_plugin =
     \<lparr>p_name = ''core'', p_init = Some 1,
      p_actions = Some [\<lparr>cname = ''o'', cimpl = 0\<rparr>],
      p_providers = None, p_evaluators = None, p_events = None, p_services = None\<rparr>"

definition host0 :: Runtime where
  "host0 =
     \<lparr>agentId = ''a'', createUniqueUuid = (\<lambda>n. ''#'' @ n), hostFault = (\<lambda>c. None),
      r_plugins = [core_plugin], r_actions = [\<lparr>cname = ''o'', cimpl = 0\<rparr>],
      r_providers = [], r_evaluators = [], r_services = [], r_events = [], emitted = []\<rparr>"

definition mgr0 :: Manager where
  "mgr0 = new_PluginManagerService code0 host0 None 0"

text \<open>Plugins loaded dynamically. \<open>A\<close> declares an action with the original name \<open>o\<close>
  and an action \<open>x\<close>; \<open>B\<close> declares an action \<open>x\<close> too; both handle the event \<open>e\<close>.\<close>

definition plugin_A :: Plugin where
  "plugin_A =
     \<lparr>p_name = ''A'', p_init = Some 2,
      p_actions = Some [\<lparr>cname = ''o'', cimpl = 5\<rparr>, \<lparr>cname = ''x'', cimpl = 1\<rparr>],
      p_providers = Some [\<lparr>cname = ''p'', cimpl = 7\<rparr>], p_evaluators = None,
      p_events = Some [(''e'', [10])], p_services = None\<rparr>"

definition plugin_B :: Plugin where
  "plugin_B =
     \<lparr>p_name = ''B'', p_init = None,
      p_actions = Some [\<lparr>cname = ''x'', cimpl = 2\<rparr>],
      p_providers = None, p_evaluators = None,
      p_events = Some [(''e'', [11])], p_services = None\<rparr>"

definition failing_plugin :: Plugin where
  "failing_plugin =
     \<lparr>p_name = ''F'', p_init = Some 1,
      p_actions = None, p_providers = None, p_evaluators = None, p_events = None,
      p_services = None\<rparr>"

text \<open>The manager after \<open>A\<close> and \<open>B\<close> have been registered, and after \<open>B\<close> and then
  \<open>A\<close> have been loaded.\<close>

definition mgr1 :: Manager where
  "mgr1 = snd (registerPlugin plugin_B 1 (snd (registerPlugin plugin_A 1 mgr0)))"

definition mgr2 :: Manager where
  "mgr2 = snd (loadPlugin ''#A'' False 3 (snd (loadPlugin ''#B'' False 2 mgr1)))"

text \<open>A manager with \<open>F\<close> registered, and one with \<open>A\<close> registered on a host that
  rejects the registration of the provider \<open>p\<close>.\<close>

definition mgr_F :: Manager where
  "mgr_F = snd (registerPlugin failing_plugin 1 mgr0)"

definition mgr_rejecting :: Manager where
  "mgr_rejecting =
     snd (registerPlugin plugin_A 1
       (new_PluginManagerService code0
          (host0\<lparr>hostFault := (\<lambda>c. if c = RegisterProvider ''p'' then Some ''no'' else None)\<rparr>)
          None 0))"

text \<open>\<open>C\<close> handles the event \<open>e\<close> with the very handler \<open>A\<close> uses; the manager after
  \<open>A\<close> and \<open>C\<close> have been registered and loaded.\<close>

definition plugin_C :: Plugin where
  "plugin_C =
     \<lparr>p_name = ''C'', p_init = None, p_actions = None, p_providers = None,
      p_evaluators = None, p_events = Some [(''e'', [10])], p_services = None\<rparr>"

definition mgr3 :: Manager where
  "mgr3 = snd (loadPlugin ''#C'' False 3 (snd (loadPlugin ''#A'' False 2
            (snd (registerPlugin plugin_C 1 (snd (registerPlugin plugin_A 1 mgr0)))))))"

text \<open>\<open>S\<close> declares a service whose start throws and one that starts.\<close>

definition plugin_S :: Plugin where
  "plugin_S =
     \<lparr>p_name = ''S'', p_init = None, p_actions = None, p_providers = None,
      p_evaluators = None, p_events = None,
      p_services = Some [\<lparr>serviceType = ''s1'', start = Inl ''down''\<rparr>,
                          \<lparr>serviceType = ''s2'', start = Inr \<lparr>inst = 1, stop = Some ''late''\<rparr>\<rparr>]\<rparr>"

definition mgr_S :: Manager where
  "mgr_S = snd (registerPlugin plugin_S 1 mgr0)"

text \<open>\<open>R\<close> declares components of every kind, none of them known to the host.\<close>

definition plugin_R :: Plugin where
  "plugin_R =
     \<lparr>p_name = ''R'', p_init = Some 2,
      p_actions = Some [\<lparr>cname = ''x'', cimpl = 1\<rparr>, \<lparr>cname = ''x'', cimpl = 2\<rparr>],
      p_providers = Some [\<lparr>cname = ''p'', cimpl = 3\<rparr>],
      p_evaluators = Some [\<lparr>cname = ''v'', cimpl = 4\<rparr>],
      p_events = Some [(''e'', [10, 11])],
      p_services = Some [\<lparr>serviceType = ''s1'', start = Inl ''down''\<rparr>,
                          \<lparr>serviceType = ''s2'', start = Inr \<lparr>inst = 1, stop = None\<rparr>\<rparr>]\<rparr>"

text \<open>\<open>H\<close> declares no component; its init hook is the one that pushes an action.\<close>

definition plugin_H :: Plugin where
  "plugin_H =
     \<lparr>p_name = ''H'', p_init = Some 3, p_actions = None, p_providers = None,
      p_evaluators = None, p_events = None, p_services = None\<rparr>"

text \<open>A registry that lists \<open>r\<close> as an npm package; a manifest that declares the name
  \<open>m\<close> and one required variable \<open>K\<close>, and one that declares no variable; a world in
  which every file operation and command succeeds, no configuration variable is set and
  every manifest read gives the first manifest, and one in which it gives the second.\<close>

definition catalog0 :: catalog where
  "catalog0 = [(''r'', \<lparr>e_name = ''r'', e_description = None, e_repository = ''u'',
                          npm = Some \<lparr>npm_repo = ''r'', npm_v1 = None\<rparr>, git = None\<rparr>)]"

definition manifest_K :: PackageJson where
  "manifest_K = \<lparr>pj_name = Some ''m'', pj_version = Some ''1'', pj_main = None,
                  pj_requiredEnvVars =
                    Some [\<lparr>d_name = ''K'', d_description = ''k'', d_sensitive = None\<rparr>]\<rparr>"

definition manifest_plain :: PackageJson where
  "manifest_plain = \<lparr>pj_name = Some ''m'', pj_version = Some ''1'', pj_main = None,
                      pj_requiredEnvVars = None\<rparr>"

definition world0 :: World where
  "world0 =
     \<lparr>w_fetch = FetchOk catalog0,
      w_cwd = ''/'',
      w_ensureDir = (\<lambda>p. None),
      w_execa = (\<lambda>c a d. None),
      w_readJson = (\<lambda>p. Inr (Some manifest_K)),
      w_pathExists = (\<lambda>p. True),
      w_isDirectory = (\<lambda>p. True),
      w_copy = (\<lambda>a b. None),
      w_remove = (\<lambda>p. None),
      w_import = (\<lambda>p. Inl ''no module''),
      w_env = (\<lambda>k. None)\<rparr>"

definition world1 :: World where
  "world1 = world0\<lparr>w_readJson := (\<lambda>p. Inr (Some manifest_plain))\<rparr>"

text \<open>The first world, with the variable \<open>K\<close> set.\<close>

definition world_K_set :: World where
  "world_K_set = world0\<lparr>w_env := (\<lambda>k. if k = ''K'' then Some ''v'' else None)\<rparr>"

text \<open>The records these installs produce.\<close>

definition info_K :: "string \<Rightarrow> DynamicPluginInfo" where
  "info_K dir =
     \<lparr>i_name = ''m'', i_version = ''1'', i_status = needs_configuration, i_path = dir,
      requiredEnvVars = [\<lparr>ev_name = ''K'', ev_description = ''k'', ev_sensitive = False,
                           isSet = False\<rparr>],
      errorDetails = None, installedAt = 0, lastActivated = None\<rparr>"

definition info_plain :: "string \<Rightarrow> DynamicPluginInfo" where
  "info_plain dir =
     \<lparr>i_name = ''m'', i_version = ''1'', i_status = installed, i_path = dir,
      requiredEnvVars = [], errorDetails = None, installedAt = 0, lastActivated = None\<rparr>"

section \<open>Evaluation of the model on concrete states\<close>

lemmas model_defs =
  emitEvent_def registerEvent_def unregisterEvent_def splice1_def set_add_def
  getPlugin_def getAllPlugins_def getLoadedPlugins_def updatePluginState_def
  getPluginComponents_def getComponentRegistrations_def trackComponentRegistration_def
  find_state_def emptyComponents_def names_of_def service_types_of_def original_state_def
  merge_config_def new_PluginManagerService_def
  reg_actions_def reg_providers_def reg_evaluators_def reg_events_def reg_services_def
  and_then_def push_plugin_def register_all_def registerPluginComponents_def
  unreg_list_def unreg_events_def unreg_services_def remove_plugin_def
  unregisterPluginComponents_def run_init_def load_failed_def loadPlugin_def unloadPlugin_def
  registerPlugin_def Let_def

lemmas example_defs =
  code0_def plugin_H_def core_plugin_def host0_def mgr0_def plugin_A_def plugin_B_def failing_plugin_def
  mgr1_def mgr2_def mgr_F_def mgr_rejecting_def plugin_C_def mgr3_def plugin_S_def mgr_S_def plugin_R_def

lemmas install_defs =
  fetch_registry_def getLocalRegistryIndex_def getAvailablePluginsFromRegistry_def
  CACHE_DURATION_def truthy_def or_else_def or_default_def path_join_def normalize_def isAbsolute_def
  split_slash_def dirname_def
  installFromNpm_def installPlugin_def safe_chars_def sanitize_def getPluginInstallPath_def
  requiredEnvVarsConfig_def parsePluginMetadata_def plugin_info_def
  installPluginFromRegistry_def installFromLocalBundle_def getInstalledPluginInfo_def
  loadInstalledPlugin_def fetch_fails_def cached_catalog_def record_of_manifest_def

lemmas world_defs =
  catalog0_def manifest_K_def manifest_plain_def world0_def world1_def world_K_set_def
  info_K_def info_plain_def

section \<open>The state store under load and unload\<close>

lemma find_state_key:
  "find_state p ps = Some (k, st) \<Longrightarrow> (k, st) \<in> set ps \<and> plugin st = Some p"
  unfolding find_state_def by (induction ps) (auto split: if_splits)


lemma registerPluginComponents_keeps_record:
  assumes "map_of (plugins s) i = Some st"
  shows "\<exists>st'. map_of (plugins (snd (registerPluginComponents p now s))) i = Some st'"
  using assms
  by (auto simp: registerPluginComponents_def update_conv' split: option.splits prod.splits)

lemma updatePluginState_lookup:
  "map_of (plugins s) i = Some st \<Longrightarrow>
   map_of (plugins (updatePluginState i upd s)) i = Some (upd st)"
  by (simp add: updatePluginState_def update_conv')

lemma emitEvent_plugins [simp]: "plugins (emitEvent ev s) = plugins s"
  by (simp add: emitEvent_def)

lemma run_init_frame [simp]:
  "plugins (snd (run_init p s)) = plugins s"
  "componentRegistry (snd (run_init p s)) = componentRegistry s"
  "initCode (snd (run_init p s)) = initCode s"
  "originalPlugins (snd (run_init p s)) = originalPlugins s"
  "originalActions (snd (run_init p s)) = originalActions s"
  "originalProviders (snd (run_init p s)) = originalProviders s"
  "originalEvaluators (snd (run_init p s)) = originalEvaluators s"
  "originalServices (snd (run_init p s)) = originalServices s"
  "installedPlugins (snd (run_init p s)) = installedPlugins s"
  by (simp_all add: run_init_def split: option.splits)


lemma initCode_emitEvent [simp]: "initCode (emitEvent ev s) = initCode s"
  by (simp add: emitEvent_def)


lemma load_failed_result:
  assumes "map_of (plugins s) i = Some st"
  shows "fst (load_failed i n e s) = Inl e \<and>
         (\<exists>st'. getPlugin i (snd (load_failed i n e s)) = Some st' \<and>
                 status st' = ERROR \<and> error st' = Some (error_message e))"
  using updatePluginState_lookup[OF assms]
  by (simp add: load_failed_def getPlugin_def)


section \<open>Arrays: lookup by predicate and splice\<close>








section \<open>Unload, step by step\<close>



lemma unloadPlugin_dynamic:
  assumes "getPlugin i s = Some st" "status st = LOADED" "plugin st = Some P"
      and "\<not> (\<exists>p \<in> set (originalPlugins s). p_name p = s_name st)"
  shows "unloadPlugin i now s =
     (Inr (), emitEvent (PLUGIN_UNLOADED i (s_name st))
        (updatePluginState i (\<lambda>x. x\<lparr>status := UNLOADED, unloadedAt := Some now\<rparr>)
           (unregisterPluginComponents P s)))"
  using assms by (simp add: unloadPlugin_def getPlugin_def)

lemma runtime_emitEvent_fields [simp]:
  "r_actions (runtime (emitEvent ev s)) = r_actions (runtime s)"
  "r_providers (runtime (emitEvent ev s)) = r_providers (runtime s)"
  "r_evaluators (runtime (emitEvent ev s)) = r_evaluators (runtime s)"
  "r_services (runtime (emitEvent ev s)) = r_services (runtime s)"
  "r_events (runtime (emitEvent ev s)) = r_events (runtime s)"
  "r_plugins (runtime (emitEvent ev s)) = r_plugins (runtime s)"
  "hostFault (runtime (emitEvent ev s)) = hostFault (runtime s)"
  "createUniqueUuid (runtime (emitEvent ev s)) = createUniqueUuid (runtime s)"
  by (simp_all add: emitEvent_def)

lemma emitEvent_other [simp]:
  "componentRegistry (emitEvent ev s) = componentRegistry s"
  "originalPlugins (emitEvent ev s) = originalPlugins s"
  "originalActions (emitEvent ev s) = originalActions s"
  "originalProviders (emitEvent ev s) = originalProviders s"
  "originalEvaluators (emitEvent ev s) = originalEvaluators s"
  "originalServices (emitEvent ev s) = originalServices s"
  "installedPlugins (emitEvent ev s) = installedPlugins s"
  by (simp_all add: emitEvent_def)

lemma updatePluginState_other [simp]:
  "runtime (updatePluginState i upd s) = runtime s"
  "componentRegistry (updatePluginState i upd s) = componentRegistry s"
  "originalPlugins (updatePluginState i upd s) = originalPlugins s"
  "originalActions (updatePluginState i upd s) = originalActions s"
  "originalProviders (updatePluginState i upd s) = originalProviders s"
  "originalEvaluators (updatePluginState i upd s) = originalEvaluators s"
  "originalServices (updatePluginState i upd s) = originalServices s"
  "installedPlugins (updatePluginState i upd s) = installedPlugins s"
  by (simp_all add: updatePluginState_def split: option.splits)

lemma unregister_runtime:
  assumes "find_state P (plugins s) = Some (k, st)"
  shows "r_actions (runtime (unregisterPluginComponents P s)) =
           fst (unreg_list (originalActions s) (p_actions P) (r_actions (runtime s), c_actions (components st)))"
    and "r_providers (runtime (unregisterPluginComponents P s)) =
           fst (unreg_list (originalProviders s) (p_providers P) (r_providers (runtime s), c_providers (components st)))"
    and "r_evaluators (runtime (unregisterPluginComponents P s)) =
           fst (unreg_list (originalEvaluators s) (p_evaluators P) (r_evaluators (runtime s), c_evaluators (components st)))"
    and "r_events (runtime (unregisterPluginComponents P s)) =
           unreg_events (c_eventHandlers (components st)) (r_events (runtime s))"
    and "r_services (runtime (unregisterPluginComponents P s)) =
           fst (unreg_services (originalServices s) (p_services P) (r_services (runtime s), c_services (components st)))"
    and "r_plugins (runtime (unregisterPluginComponents P s)) = remove_plugin P (r_plugins (runtime s))"
  using assms by (simp_all add: unregisterPluginComponents_def Let_def)


section \<open>Event handlers under unregistration\<close>

lemma handlers_on_unregisterEvent:
  "handlers_on e' (unregisterEvent e h evs) =
     (if e' = e then filter (\<lambda>x. x \<noteq> h) (handlers_on e evs) else handlers_on e' evs)"
  by (auto simp: handlers_on_def unregisterEvent_def Let_def update_conv' delete_conv'
           split: option.splits)

lemma handlers_on_unregister_handlers:
  "handlers_on e' (unregister_handlers e hs evs) =
     (if e' = e then filter (\<lambda>x. x \<notin> set hs) (handlers_on e evs) else handlers_on e' evs)"
proof (induction hs arbitrary: evs)
  case Nil
  then show ?case by simp
next
  case (Cons h hs)
  show ?case
    by (simp add: Cons.IH handlers_on_unregisterEvent)
qed

lemma handlers_on_unregister_events:
  "handlers_on e (unregister_events own evs) =
     filter (\<lambda>x. x \<notin> set (handlers_for e own)) (handlers_on e evs)"
proof (induction own arbitrary: evs)
  case Nil
  then show ?case by (simp add: handlers_for_def)
next
  case (Cons kv own)
  obtain e1 hs where kv: "kv = (e1, hs)" by (cases kv)
  show ?case
    by (auto simp: kv Cons.IH handlers_on_unregister_handlers handlers_for_def intro: filter_cong)
qed

lemma handlers_on_unreg_events:
  "handlers_on e (unreg_events own evs) =
     filter (\<lambda>x. x \<notin> set (handlers_for e own)) (handlers_on e evs)"
  by (simp add: unreg_events_def handlers_on_unregister_events handlers_for_def)

lemma unregister_plugins:
  assumes "find_state P (plugins s) = Some (k, st)"
  shows "plugins (unregisterPluginComponents P s) =
           AList.update k
             (st\<lparr>components :=
                \<lparr>c_actions = snd (unreg_list (originalActions s) (p_actions P)
                                     (r_actions (runtime s), c_actions (components st))),
                 c_providers = snd (unreg_list (originalProviders s) (p_providers P)
                                     (r_providers (runtime s), c_providers (components st))),
                 c_evaluators = snd (unreg_list (originalEvaluators s) (p_evaluators P)
                                     (r_evaluators (runtime s), c_evaluators (components st))),
                 c_services = snd (unreg_services (originalServices s) (p_services P)
                                     (r_services (runtime s), c_services (components st))),
                 c_eventHandlers = []\<rparr>\<rparr>) (plugins s)"
    and "componentRegistry (unregisterPluginComponents P s) =
           AList.delete (s_id st) (componentRegistry s)"
  using assms by (simp_all add: unregisterPluginComponents_def Let_def)

section \<open>Registration, step by step\<close>

lemma register_services_skip:
  "register_services pid now scs ctx = register_services pid now (filter starts scs) ctx"
proof (induction scs arbitrary: ctx)
  case Nil
  then show ?case by simp
next
  case (Cons sc scs)
  obtain svcs owned reg where ctx: "ctx = (svcs, owned, reg)" by (cases ctx)
  show ?case using Cons.IH by (cases "start sc") (simp_all add: ctx starts_def)
qed

lemma register_services_effect:
  "register_services pid now scs (svcs, owned, reg) = (svcs', owned', reg') \<Longrightarrow>
   owned' = owned \<union> serviceType ` set (filter starts scs) \<and>
   dom (map_of svcs') = dom (map_of svcs) \<union> serviceType ` set (filter starts scs) \<and>
   (\<forall>T. T \<notin> serviceType ` set (filter starts scs) \<longrightarrow> map_of svcs' T = map_of svcs T)"
proof (induction scs arbitrary: svcs owned reg)
  case Nil
  then show ?case by simp
next
  case (Cons sc scs)
  show ?case
  proof (cases "start sc")
    case (Inl m)
    with Cons.prems have "register_services pid now scs (svcs, owned, reg) = (svcs', owned', reg')"
      by simp
    from Cons.IH[OF this] Inl show ?thesis by (simp add: starts_def)
  next
    case (Inr v)
    with Cons.prems have "register_services pid now scs
        (AList.update (serviceType sc) v svcs, insert (serviceType sc) owned,
         trackComponentRegistration pid ServiceT (serviceType sc) now reg) = (svcs', owned', reg')"
      by simp
    from Cons.IH[OF this] Inr show ?thesis
      by (auto simp: starts_def update_conv')
  qed
qed

lemma register_named_fault:
  "register_named fault ty pid now cs ctx = (Some m, ctx') \<Longrightarrow> \<exists>n. fault n = Some m"
proof (induction cs arbitrary: ctx)
  case Nil
  then show ?case by simp
next
  case (Cons c cs)
  obtain host owned reg where ctx: "ctx = (host, owned, reg)" by (cases ctx)
  show ?case
  proof (cases "fault (cname c)")
    case None
    with Cons.prems ctx show ?thesis using Cons.IH by auto
  next
    case (Some a)
    with Cons.prems ctx show ?thesis by auto
  qed
qed

lemma register_handlers_fault:
  "register_handlers fault pid now e hs ctx = (Some m, ctx') \<Longrightarrow> \<exists>c. fault c = Some m"
proof (induction hs arbitrary: ctx)
  case Nil
  then show ?case by simp
next
  case (Cons h hs)
  obtain evs own reg where ctx: "ctx = (evs, own, reg)" by (cases ctx)
  show ?case
  proof (cases "fault (RegisterEvent e h)")
    case None
    with Cons.prems ctx show ?thesis using Cons.IH by auto
  next
    case (Some a)
    with Cons.prems ctx show ?thesis by auto
  qed
qed

lemma register_events_fault:
  "register_events fault pid now es ctx = (Some m, ctx') \<Longrightarrow> \<exists>c. fault c = Some m"
proof (induction es arbitrary: ctx)
  case Nil
  then show ?case by simp
next
  case (Cons x es)
  obtain e hs where x: "x = (e, hs)" by (cases x)
  obtain evs own reg where ctx: "ctx = (evs, own, reg)" by (cases ctx)
  obtain r c1 where rc: "register_handlers fault pid now e hs
             (evs, if map_of own e = None then AList.update e [] own else own, reg) = (r, c1)"
    by (cases "register_handlers fault pid now e hs
             (evs, if map_of own e = None then AList.update e [] own else own, reg)")
  show ?case
  proof (cases r)
    case None
    with Cons.prems x ctx rc show ?thesis using Cons.IH[of c1] by simp
  next
    case (Some a)
    with Cons.prems x ctx rc have "a = m" by simp
    with Some rc register_handlers_fault show ?thesis by blast
  qed
qed

text \<open>The four steps before the services leave the service table, the plugin list and
  the set of owned service types alone.\<close>

lemma reg_actions_frame:
  "reg_actions p pid now c = (r, c') \<Longrightarrow>
   r_services (x_rt c') = r_services (x_rt c) \<and> r_plugins (x_rt c') = r_plugins (x_rt c) \<and>
   c_services (x_comps c') = c_services (x_comps c) \<and> hostFault (x_rt c') = hostFault (x_rt c) \<and>
   (\<forall>m. r = Some m \<longrightarrow> (\<exists>call. hostFault (x_rt c) call = Some m))"
  by (auto simp: reg_actions_def split: option.splits prod.splits dest: register_named_fault)

lemma reg_providers_frame:
  "reg_providers p pid now c = (r, c') \<Longrightarrow>
   r_services (x_rt c') = r_services (x_rt c) \<and> r_plugins (x_rt c') = r_plugins (x_rt c) \<and>
   c_services (x_comps c') = c_services (x_comps c) \<and> hostFault (x_rt c') = hostFault (x_rt c) \<and>
   (\<forall>m. r = Some m \<longrightarrow> (\<exists>call. hostFault (x_rt c) call = Some m))"
  by (auto simp: reg_providers_def split: option.splits prod.splits dest: register_named_fault)

lemma reg_evaluators_frame:
  "reg_evaluators p pid now c = (r, c') \<Longrightarrow>
   r_services (x_rt c') = r_services (x_rt c) \<and> r_plugins (x_rt c') = r_plugins (x_rt c) \<and>
   c_services (x_comps c') = c_services (x_comps c) \<and> hostFault (x_rt c') = hostFault (x_rt c) \<and>
   (\<forall>m. r = Some m \<longrightarrow> (\<exists>call. hostFault (x_rt c) call = Some m))"
  by (auto simp: reg_evaluators_def split: option.splits prod.splits dest: register_named_fault)

lemma reg_events_frame:
  "reg_events p pid now c = (r, c') \<Longrightarrow>
   r_services (x_rt c') = r_services (x_rt c) \<and> r_plugins (x_rt c') = r_plugins (x_rt c) \<and>
   c_services (x_comps c') = c_services (x_comps c) \<and> hostFault (x_rt c') = hostFault (x_rt c) \<and>
   (\<forall>m. r = Some m \<longrightarrow> (\<exists>call. hostFault (x_rt c) call = Some m))"
  by (auto simp: reg_events_def split: option.splits prod.splits dest: register_events_fault)

lemma and_then_frame:
  assumes f: "\<And>c r c'. f c = (r, c') \<Longrightarrow>
      r_services (x_rt c') = r_services (x_rt c) \<and> r_plugins (x_rt c') = r_plugins (x_rt c) \<and>
      c_services (x_comps c') = c_services (x_comps c) \<and> hostFault (x_rt c') = hostFault (x_rt c) \<and>
      (\<forall>m. r = Some m \<longrightarrow> (\<exists>call. hostFault (x_rt c) call = Some m))"
    and x: "r_services (x_rt (snd x)) = r_services (x_rt c0) \<and> r_plugins (x_rt (snd x)) = r_plugins (x_rt c0) \<and>
      c_services (x_comps (snd x)) = c_services (x_comps c0) \<and> hostFault (x_rt (snd x)) = hostFault (x_rt c0) \<and>
      (\<forall>m. fst x = Some m \<longrightarrow> (\<exists>call. hostFault (x_rt c0) call = Some m))"
    and e: "and_then x f = (r, c')"
  shows "r_services (x_rt c') = r_services (x_rt c0) \<and> r_plugins (x_rt c') = r_plugins (x_rt c0) \<and>
      c_services (x_comps c') = c_services (x_comps c0) \<and> hostFault (x_rt c') = hostFault (x_rt c0) \<and>
      (\<forall>m. r = Some m \<longrightarrow> (\<exists>call. hostFault (x_rt c0) call = Some m))"
proof (cases "fst x")
  case None
  with e have "f (snd x) = (r, c')" by (simp add: and_then_def)
  from f[OF this] x show ?thesis by simp
next
  case (Some m)
  with e have "x = (r, c')" by (simp add: and_then_def)
  with x show ?thesis by auto
qed

lemma four_steps_frame:
  assumes "four_steps p pid now c = (r, c')"
  shows "r_services (x_rt c') = r_services (x_rt c) \<and> r_plugins (x_rt c') = r_plugins (x_rt c) \<and>
      c_services (x_comps c') = c_services (x_comps c) \<and> hostFault (x_rt c') = hostFault (x_rt c) \<and>
      (\<forall>m. r = Some m \<longrightarrow> (\<exists>call. hostFault (x_rt c) call = Some m))"
proof -
  let ?a = "reg_actions p pid now c"
  let ?b = "and_then ?a (reg_providers p pid now)"
  let ?c = "and_then ?b (reg_evaluators p pid now)"
  have a: "r_services (x_rt (snd ?a)) = r_services (x_rt c) \<and> r_plugins (x_rt (snd ?a)) = r_plugins (x_rt c) \<and>
      c_services (x_comps (snd ?a)) = c_services (x_comps c) \<and> hostFault (x_rt (snd ?a)) = hostFault (x_rt c) \<and>
      (\<forall>m. fst ?a = Some m \<longrightarrow> (\<exists>call. hostFault (x_rt c) call = Some m))"
    using reg_actions_frame[of p pid now c "fst ?a" "snd ?a"] by simp
  have b: "r_services (x_rt (snd ?b)) = r_services (x_rt c) \<and> r_plugins (x_rt (snd ?b)) = r_plugins (x_rt c) \<and>
      c_services (x_comps (snd ?b)) = c_services (x_comps c) \<and> hostFault (x_rt (snd ?b)) = hostFault (x_rt c) \<and>
      (\<forall>m. fst ?b = Some m \<longrightarrow> (\<exists>call. hostFault (x_rt c) call = Some m))"
    by (rule and_then_frame[where f = "reg_providers p pid now" and x = ?a and r = "fst ?b"])
       (use a reg_providers_frame in auto)
  have c: "r_services (x_rt (snd ?c)) = r_services (x_rt c) \<and> r_plugins (x_rt (snd ?c)) = r_plugins (x_rt c) \<and>
      c_services (x_comps (snd ?c)) = c_services (x_comps c) \<and> hostFault (x_rt (snd ?c)) = hostFault (x_rt c) \<and>
      (\<forall>m. fst ?c = Some m \<longrightarrow> (\<exists>call. hostFault (x_rt c) call = Some m))"
    by (rule and_then_frame[where f = "reg_evaluators p pid now" and x = ?b and r = "fst ?c"])
       (use b reg_evaluators_frame in auto)
  show ?thesis
    by (rule and_then_frame[where f = "reg_events p pid now" and x = ?c])
       (use c reg_events_frame assms in \<open>auto simp: four_steps_def\<close>)
qed

lemma register_all_four_steps:
  "register_all p pid now c =
     and_then (four_steps p pid now c) (\<lambda>c4. (None, push_plugin p (reg_services p pid now c4)))"
  by (simp add: register_all_def four_steps_def)

lemma reg_services_effect:
  "r_plugins (x_rt (reg_services p pid now c)) = r_plugins (x_rt c) \<and>
   c_services (x_comps (reg_services p pid now c)) =
     c_services (x_comps c) \<union> serviceType ` set (filter starts (declared (p_services p))) \<and>
   dom (map_of (r_services (x_rt (reg_services p pid now c)))) =
     dom (map_of (r_services (x_rt c))) \<union> serviceType ` set (filter starts (declared (p_services p))) \<and>
   (\<forall>T. T \<notin> serviceType ` set (filter starts (declared (p_services p))) \<longrightarrow>
        map_of (r_services (x_rt (reg_services p pid now c))) T = map_of (r_services (x_rt c)) T)"
proof (cases "p_services p")
  case None
  then show ?thesis by (simp add: reg_services_def declared_def)
next
  case (Some scs)
  obtain svcs' owned' reg' where
    r: "register_services pid now scs (r_services (x_rt c), c_services (x_comps c), x_reg c) =
          (svcs', owned', reg')"
    by (cases "register_services pid now scs (r_services (x_rt c), c_services (x_comps c), x_reg c)")
  from register_services_effect[OF r] Some r show ?thesis
    by (simp add: reg_services_def declared_def)
qed

section \<open>Round trip of one registry\<close>






section \<open>Round trip of the service table\<close>









section \<open>Round trip of the event bus\<close>










section \<open>A registration that succeeds\<close>

lemma declared_simps [simp]: "declared None = []" "declared (Some xs) = xs"
  by (simp_all add: declared_def)








section \<open>Register, load, unload\<close>










section \<open>Registry cache\<close>

lemma getLocalRegistryIndex_returns:
  "\<exists>d. fst (getLocalRegistryIndex now out cache) = Inr d"
  by (auto simp: getLocalRegistryIndex_def split: option.splits sum.splits)

lemma getLocalRegistryIndex_failing:
  "fetch_fails out \<Longrightarrow>
   getLocalRegistryIndex now out cache = (Inr (cached_catalog cache), cache)"
  by (auto simp: getLocalRegistryIndex_def fetch_fails_def cached_catalog_def
           split: option.splits sum.splits)

lemma cache_step_None:
  "snd (getLocalRegistryIndex now out cache) = None \<longleftrightarrow> cache = None \<and> fetch_fails out"
  by (auto simp: getLocalRegistryIndex_def fetch_fails_def split: option.splits sum.splits)

lemma cache_step_Some:
  "snd (getLocalRegistryIndex now out cache) = Some c \<Longrightarrow>
   cache = Some c \<or> out = FetchOk (cache_data c)"
  by (auto simp: getLocalRegistryIndex_def fetch_registry_def
           split: option.splits sum.splits FetchOutcome.splits if_splits)

lemma registry_calls_None:
  "registry_calls cs cache = None \<longleftrightarrow> cache = None \<and> (\<forall>c \<in> set cs. fetch_fails (snd c))"
proof (induction cs arbitrary: cache)
  case Nil
  then show ?case by simp
next
  case (Cons x cs)
  obtain now out where x: "x = (now, out)" by (cases x)
  show ?case by (auto simp: x Cons.IH cache_step_None)
qed

lemma registry_calls_Some:
  "registry_calls cs cache = Some c \<Longrightarrow>
   cache = Some c \<or> (\<exists>x \<in> set cs. snd x = FetchOk (cache_data c))"
proof (induction cs arbitrary: cache)
  case Nil
  then show ?case by simp
next
  case (Cons x cs)
  obtain now out where x: "x = (now, out)" by (cases x)
  from Cons.prems x have "registry_calls cs (snd (getLocalRegistryIndex now out cache)) = Some c"
    by simp
  from Cons.IH[OF this] show ?case
  proof
    assume "snd (getLocalRegistryIndex now out cache) = Some c"
    from cache_step_Some[OF this] show ?thesis by (auto simp: x)
  next
    assume "\<exists>x \<in> set cs. snd x = FetchOk (cache_data c)"
    then show ?thesis by auto
  qed
qed

section \<open>Installs\<close>

lemma parsePluginMetadata_Inr:
  assumes "parsePluginMetadata pluginPath w = Inr md"
  shows "\<exists>pj. w_readJson w (path_join [pluginPath, ''package.json'']) = Inr (Some pj) \<and>
              record_of_manifest pj (plugin_info md dir now)"
  using assms
  by (auto simp: parsePluginMetadata_def plugin_info_def record_of_manifest_def Let_def comp_def
           split: sum.splits option.splits)

lemma installPluginFromRegistry_Inr:
  assumes "installPluginFromRegistry pluginName version now w (cache, s) = (Inr info, cache', s')"
  shows "\<exists>md. parsePluginMetadata (getPluginInstallPath pluginName s) w = Inr md \<and>
              info = plugin_info md (getPluginInstallPath pluginName s) now \<and>
              s' = s\<lparr>installedPlugins := AList.update pluginName info (installedPlugins s)\<rparr>"
  using assms
  by (auto simp: installPluginFromRegistry_def Let_def split: option.splits prod.splits sum.splits)

lemma installFromLocalBundle_Inr:
  assumes "installFromLocalBundle bundlePath now w s = (Inr info, s')"
  shows "\<exists>md. parsePluginMetadata bundlePath w = Inr md \<and>
              info = plugin_info md (getPluginInstallPath (m_name md) s) now \<and>
              s' = s\<lparr>installedPlugins := AList.update (m_name md) info (installedPlugins s)\<rparr>"
  using assms
  by (auto simp: installFromLocalBundle_def Let_def split: option.splits sum.splits if_splits)

lemma plugin_info_name: "i_name (plugin_info md dir now) = m_name md"
  by (simp add: plugin_info_def)

lemma loadInstalledPlugin_needs_configuration:
  assumes "getInstalledPluginInfo pluginName s = Some info" "i_status info = needs_configuration"
  shows "loadInstalledPlugin pluginName now w s = (Inl (ConfigurationRequired pluginName), s)"
  using assms by (simp add: loadInstalledPlugin_def getInstalledPluginInfo_def)

lemma loadInstalledPlugin_not_installed:
  assumes "getInstalledPluginInfo pluginName s = None"
  shows "loadInstalledPlugin pluginName now w s = (Inl (NotInstalled pluginName), s)"
  using assms by (simp add: loadInstalledPlugin_def getInstalledPluginInfo_def)

lemma getInstalledPluginInfo_update:
  "getInstalledPluginInfo k (s\<lparr>installedPlugins := AList.update n info (installedPlugins s)\<rparr>) =
     (if k = n then Some info else getInstalledPluginInfo k s)"
  by (simp add: getInstalledPluginInfo_def update_conv')

lemma install_path_r: "getPluginInstallPath ''r'' mgr0 = ''plugins/installed/r''"
  by (simp add: getPluginInstallPath_def or_default_def sanitize_def safe_chars_def path_join_def
        normalize_def isAbsolute_def split_slash_def mgr0_def new_PluginManagerService_def
        merge_config_def Let_def)

lemma install_path_m: "getPluginInstallPath ''m'' mgr0 = ''plugins/installed/m''"
  by (simp add: getPluginInstallPath_def or_default_def sanitize_def safe_chars_def path_join_def
        normalize_def isAbsolute_def split_slash_def mgr0_def new_PluginManagerService_def
        merge_config_def Let_def)

lemma installedPlugins_mgr0: "installedPlugins mgr0 = []"
  by (simp add: mgr0_def new_PluginManagerService_def)

lemma world0_install_registry:
  "installPluginFromRegistry ''r'' None 0 world0 (None, mgr0) =
     (Inr (info_K ''plugins/installed/r''),
      Some \<lparr>cache_data = catalog0, cache_timestamp = 0\<rparr>,
      mgr0\<lparr>installedPlugins := [(''r'', info_K ''plugins/installed/r'')]\<rparr>)"
  by (simp add: installPluginFromRegistry_def installPlugin_def installFromNpm_def
        getLocalRegistryIndex_def fetch_registry_def truthy_def or_else_def or_default_def
        parsePluginMetadata_def requiredEnvVarsConfig_def plugin_info_def install_path_r
        installedPlugins_mgr0 world_defs Let_def)

lemma world1_install_registry:
  "installPluginFromRegistry ''r'' None 0 world1 (None, mgr0) =
     (Inr (info_plain ''plugins/installed/r''),
      Some \<lparr>cache_data = catalog0, cache_timestamp = 0\<rparr>,
      mgr0\<lparr>installedPlugins := [(''r'', info_plain ''plugins/installed/r'')]\<rparr>)"
  by (simp add: installPluginFromRegistry_def installPlugin_def installFromNpm_def
        getLocalRegistryIndex_def fetch_registry_def truthy_def or_else_def or_default_def
        parsePluginMetadata_def requiredEnvVarsConfig_def plugin_info_def install_path_r
        installedPlugins_mgr0 world_defs Let_def)

lemma world0_install_bundle:
  "installFromLocalBundle ''b'' 0 world0 mgr0 =
     (Inr (info_K ''plugins/installed/m''),
      mgr0\<lparr>installedPlugins := [(''m'', info_K ''plugins/installed/m'')]\<rparr>)"
  by (simp add: installFromLocalBundle_def or_default_def
        parsePluginMetadata_def requiredEnvVarsConfig_def plugin_info_def install_path_m
        installedPlugins_mgr0 world_defs Let_def)

lemma world1_install_bundle:
  "installFromLocalBundle ''b'' 0 world1 mgr0 =
     (Inr (info_plain ''plugins/installed/m''),
      mgr0\<lparr>installedPlugins := [(''m'', info_plain ''plugins/installed/m'')]\<rparr>)"
  by (simp add: installFromLocalBundle_def or_default_def
        parsePluginMetadata_def requiredEnvVarsConfig_def plugin_info_def install_path_m
        installedPlugins_mgr0 world_defs Let_def)

lemma world_K_set_install_registry:
  "installPluginFromRegistry ''r'' None 0 world_K_set (None, mgr0) =
     (Inr (info_K ''plugins/installed/r''),
      Some \<lparr>cache_data = catalog0, cache_timestamp = 0\<rparr>,
      mgr0\<lparr>installedPlugins := [(''r'', info_K ''plugins/installed/r'')]\<rparr>)"
  by (simp add: installPluginFromRegistry_def installPlugin_def installFromNpm_def
        getLocalRegistryIndex_def fetch_registry_def truthy_def or_else_def or_default_def
        parsePluginMetadata_def requiredEnvVarsConfig_def plugin_info_def install_path_r
        installedPlugins_mgr0 world_defs Let_def)

lemma info_K_status: "i_status (info_K dir) = needs_configuration"
  by (simp add: info_K_def)

lemma info_K_name: "i_name (info_K dir) = ''m''"
  by (simp add: info_K_def)

lemma world0_readJson: "w_readJson world0 p = Inr (Some manifest_K)"
  by (simp add: world0_def)

lemma info_plain_status: "i_status (info_plain dir) = installed"
  by (simp add: info_plain_def)

lemma world1_readJson: "w_readJson world1 p = Inr (Some manifest_plain)"
  by (simp add: world1_def world0_def)

section \<open>Claims\<close>




text \<open>
  C4, as the code has it. \<open>unloadPlugin\<close> tests the record's status before it tests
  whether the plugin is an original one. For a record whose name is the name of an
  original plugin: when its status is \<open>LOADED\<close> the call fails with \<open>ProtectedPlugin\<close>,
  otherwise it is a successful no-op; in both cases the manager state is unchanged.
\<close>

theorem unloadPlugin_original_protected:
  assumes "getPlugin i s = Some st"
      and "\<exists>p \<in> set (originalPlugins s). p_name p = s_name st"
  shows "unloadPlugin i now s =
           (if status st = LOADED then Inl (ProtectedPlugin (s_name st)) else Inr (), s)"
  using assms by (simp add: unloadPlugin_def getPlugin_def)

theorem unloadPlugin_original_protected_witness:
  "unloadPlugin ''#core'' 5 mgr0 = (Inl (ProtectedPlugin ''core''), mgr0)"
proof -
  have h1: "getPlugin ''#core'' mgr0 = Some (original_state host0 0 core_plugin)"
    by (simp add: model_defs example_defs)
  have h2: "\<exists>p \<in> set (originalPlugins mgr0). p_name p = s_name (original_state host0 0 core_plugin)"
    by (simp add: model_defs example_defs)
  from unloadPlugin_original_protected[OF h1 h2, of 5] show ?thesis
    by (simp add: original_state_def core_plugin_def)
qed

text \<open>
  C4 as stated fails: \<open>core\<close> is an original plugin of \<open>mgr0\<close>; a forced reload runs its
  init hook, which throws, and leaves the record in \<open>ERROR\<close>; the next \<open>unloadPlugin\<close>
  returns success instead of \<open>ProtectedPlugin\<close>.
\<close>

theorem unloadPlugin_original_counterexample:
  "core_plugin \<in> set (originalPlugins mgr0) \<and>
   fst (loadPlugin ''#core'' True 1 mgr0) = Inl (Thrown ''boom'') \<and>
   fst (unloadPlugin ''#core'' 2 (snd (loadPlugin ''#core'' True 1 mgr0))) = Inr ()"
  by (simp add: model_defs example_defs)

text \<open>
  C6. For a record with a plugin instance that \<open>loadPlugin\<close> goes on to load (\<open>force\<close>, or
  status \<open>READY\<close> or \<open>UNLOADED\<close>): if the init hook throws, or the init hook returns and
  component registration throws, then \<open>loadPlugin\<close> fails with that same error, and in
  the state it leaves the record has status \<open>ERROR\<close> and the error's message in \<open>error\<close>.
\<close>

theorem loadPlugin_exception_sets_error:
  assumes "getPlugin i s = Some st"
      and "plugin st = Some p"
      and "force \<or> status st = READY \<or> status st = UNLOADED"
      and "(fst (run_init p (emitEvent (PLUGIN_BUILDING i (s_name st)) s)) = Some m \<and>
            e = Thrown m) \<or>
           (fst (run_init p (emitEvent (PLUGIN_BUILDING i (s_name st)) s)) = None \<and>
            fst (registerPluginComponents p now
                   (snd (run_init p (emitEvent (PLUGIN_BUILDING i (s_name st)) s)))) = Some e)"
  shows "fst (loadPlugin i force now s) = Inl e \<and>
         (\<exists>st'. getPlugin i (snd (loadPlugin i force now s)) = Some st' \<and>
                 status st' = ERROR \<and> error st' = Some (error_message e))"
proof -
  let ?s1 = "emitEvent (PLUGIN_BUILDING i (s_name st)) s"
  from assms(1) have look: "map_of (plugins s) i = Some st" by (simp add: getPlugin_def)
  obtain r0 sI where ri: "run_init p ?s1 = (r0, sI)" by (cases "run_init p ?s1")
  have look': "map_of (plugins sI) i = Some st"
    using look run_init_frame(1)[of p ?s1] by (simp add: ri)
  from assms(4) show ?thesis
  proof
    assume a: "fst (run_init p ?s1) = Some m \<and> e = Thrown m"
    then have r0: "r0 = Some m" by (simp add: ri)
    have "loadPlugin i force now s = load_failed i (s_name st) e sI"
      using look assms(3) assms(2) a by (auto simp: loadPlugin_def Let_def ri r0)
    then show ?thesis using load_failed_result[OF look'] by simp
  next
    assume a: "fst (run_init p ?s1) = None \<and>
               fst (registerPluginComponents p now (snd (run_init p ?s1))) = Some e"
    then have r0: "r0 = None" by (simp add: ri)
    obtain s2 where r: "registerPluginComponents p now sI = (Some e, s2)"
      using a by (cases "registerPluginComponents p now sI") (auto simp: ri)
    have "loadPlugin i force now s = load_failed i (s_name st) e s2"
      using look assms(3) assms(2) by (auto simp: loadPlugin_def Let_def ri r0 r)
    moreover have "\<exists>st2. map_of (plugins s2) i = Some st2"
      using registerPluginComponents_keeps_record[OF look', of p now] r by simp
    ultimately show ?thesis using load_failed_result by auto
  qed
qed

theorem loadPlugin_exception_sets_error_witness:
  "(fst (loadPlugin ''#F'' False 2 mgr_F) = Inl (Thrown ''boom'') \<and>
    (\<exists>st'. getPlugin ''#F'' (snd (loadPlugin ''#F'' False 2 mgr_F)) = Some st' \<and>
           status st' = ERROR \<and> error st' = Some ''boom'')) \<and>
   (fst (loadPlugin ''#A'' False 2 mgr_rejecting) = Inl (Thrown ''no'') \<and>
    (\<exists>st'. getPlugin ''#A'' (snd (loadPlugin ''#A'' False 2 mgr_rejecting)) = Some st' \<and>
           status st' = ERROR \<and> error st' = Some ''no''))"
proof -
  let ?f = "the (getPlugin ''#F'' mgr_F)"
  let ?d = "the (getPlugin ''#A'' mgr_rejecting)"
  have f1: "getPlugin ''#F'' mgr_F = Some ?f"
    by (simp add: model_defs example_defs)
  have f2: "plugin ?f = Some failing_plugin"
    by (simp add: model_defs example_defs)
  have f3: "False \<or> status ?f = READY \<or> status ?f = UNLOADED"
    by (simp add: model_defs example_defs)
  have f4: "(fst (run_init failing_plugin (emitEvent (PLUGIN_BUILDING ''#F'' (s_name ?f)) mgr_F)) =
        Some ''boom'' \<and> Thrown ''boom'' = Thrown ''boom'') \<or>
     (fst (run_init failing_plugin (emitEvent (PLUGIN_BUILDING ''#F'' (s_name ?f)) mgr_F)) = None \<and>
      fst (registerPluginComponents failing_plugin 2
             (snd (run_init failing_plugin (emitEvent (PLUGIN_BUILDING ''#F'' (s_name ?f)) mgr_F)))) =
        Some (Thrown ''boom''))"
    by (simp add: model_defs example_defs)
  have d1: "getPlugin ''#A'' mgr_rejecting = Some ?d"
    by (simp add: model_defs example_defs)
  have d2: "plugin ?d = Some plugin_A"
    by (simp add: model_defs example_defs)
  have d3: "False \<or> status ?d = READY \<or> status ?d = UNLOADED"
    by (simp add: model_defs example_defs)
  have d4: "(fst (run_init plugin_A (emitEvent (PLUGIN_BUILDING ''#A'' (s_name ?d)) mgr_rejecting)) =
        Some m \<and> Thrown ''no'' = Thrown m) \<or>
     (fst (run_init plugin_A (emitEvent (PLUGIN_BUILDING ''#A'' (s_name ?d)) mgr_rejecting)) = None \<and>
      fst (registerPluginComponents plugin_A 2
             (snd (run_init plugin_A (emitEvent (PLUGIN_BUILDING ''#A'' (s_name ?d)) mgr_rejecting)))) =
        Some (Thrown ''no''))" for m
    by (simp add: model_defs example_defs)
  from loadPlugin_exception_sets_error[OF f1 f2 f3 f4]
       loadPlugin_exception_sets_error[OF d1 d2 d3 d4]
  show ?thesis by simp
qed




text \<open>
  C8, as the code has it. \<open>A\<close> is a loaded plugin that is not an original one, and its
  record is the one that holds its plugin object. \<open>unloadPlugin\<close> of \<open>A\<close> succeeds; for
  every event, the handlers left on the host event bus are the handlers that were there
  minus the handler references \<open>A\<close>'s component set holds for that event; \<open>A\<close>'s
  \<open>eventHandlers\<close> map is empty afterwards; and for any other plugin \<open>B\<close>, a handler that
  \<open>B\<close> holds for the event and that is not one of \<open>A\<close>'s references for it is still
  registered, and \<open>B\<close>'s record is unchanged.
\<close>

theorem unloadPlugin_event_handlers:
  assumes "getPlugin i s = Some st" and "status st = LOADED" and "plugin st = Some P"
      and "\<not> (\<exists>p \<in> set (originalPlugins s). p_name p = s_name st)"
      and "find_state P (plugins s) = Some (i, st)"
  shows "fst (unloadPlugin i now s) = Inr () \<and>
         (\<forall>e. handlers_on e (r_events (runtime (snd (unloadPlugin i now s)))) =
               filter (\<lambda>h. h \<notin> set (handlers_for e (c_eventHandlers (components st))))
                 (handlers_on e (r_events (runtime s)))) \<and>
         (\<exists>st'. getPlugin i (snd (unloadPlugin i now s)) = Some st' \<and>
                 c_eventHandlers (components st') = []) \<and>
         (\<forall>j stB e h. j \<noteq> i \<and> getPlugin j s = Some stB \<and>
               h \<in> set (handlers_for e (c_eventHandlers (components stB))) \<and>
               h \<in> set (handlers_on e (r_events (runtime s))) \<and>
               h \<notin> set (handlers_for e (c_eventHandlers (components st))) \<longrightarrow>
               h \<in> set (handlers_on e (r_events (runtime (snd (unloadPlugin i now s))))) \<and>
               getPlugin j (snd (unloadPlugin i now s)) = Some stB)"
proof -
  let ?s' = "snd (unloadPlugin i now s)"
  let ?u = "unregisterPluginComponents P s"
  have u: "unloadPlugin i now s =
     (Inr (), emitEvent (PLUGIN_UNLOADED i (s_name st))
        (updatePluginState i (\<lambda>x. x\<lparr>status := UNLOADED, unloadedAt := Some now\<rparr>) ?u))"
    by (rule unloadPlugin_dynamic[OF assms(1-4)])
  have ev: "handlers_on e (r_events (runtime ?s')) =
               filter (\<lambda>h. h \<notin> set (handlers_for e (c_eventHandlers (components st))))
                 (handlers_on e (r_events (runtime s)))" for e
    by (simp add: u unregister_runtime(4)[OF assms(5)] handlers_on_unreg_events)
  obtain c where
    c: "plugins ?u = AList.update i (st\<lparr>components := c\<rparr>) (plugins s)" "c_eventHandlers c = []"
    using unregister_plugins(1)[OF assms(5)] by simp
  have look: "map_of (plugins ?u) i = Some (st\<lparr>components := c\<rparr>)"
    by (simp add: c(1) update_conv')
  have own: "\<exists>st'. getPlugin i ?s' = Some st' \<and> c_eventHandlers (components st') = []"
    using updatePluginState_lookup[OF look] c(2) by (simp add: u getPlugin_def)
  have other: "getPlugin j ?s' = getPlugin j s" if "j \<noteq> i" for j
    using that look by (simp add: u getPlugin_def updatePluginState_def c(1) update_conv')
  show ?thesis using u ev own other by auto
qed

theorem unloadPlugin_event_handlers_witness:
  "fst (unloadPlugin ''#A'' 4 mgr2) = Inr () \<and>
   (\<forall>e. handlers_on e (r_events (runtime (snd (unloadPlugin ''#A'' 4 mgr2)))) =
         filter (\<lambda>h. h \<notin> set (handlers_for e
                   (c_eventHandlers (components (the (getPlugin ''#A'' mgr2))))))
           (handlers_on e (r_events (runtime mgr2)))) \<and>
   (\<exists>st'. getPlugin ''#A'' (snd (unloadPlugin ''#A'' 4 mgr2)) = Some st' \<and>
           c_eventHandlers (components st') = []) \<and>
   11 \<in> set (handlers_for ''e'' (c_eventHandlers (components (the (getPlugin ''#B'' mgr2))))) \<and>
   11 \<in> set (handlers_on ''e'' (r_events (runtime mgr2))) \<and>
   11 \<in> set (handlers_on ''e'' (r_events (runtime (snd (unloadPlugin ''#A'' 4 mgr2))))) \<and>
   getPlugin ''#B'' (snd (unloadPlugin ''#A'' 4 mgr2)) = getPlugin ''#B'' mgr2"
proof -
  let ?st = "the (getPlugin ''#A'' mgr2)"
  let ?stB = "the (getPlugin ''#B'' mgr2)"
  have h1: "getPlugin ''#A'' mgr2 = Some ?st"
    by (simp add: model_defs example_defs)
  have h2: "status ?st = LOADED"
    by (simp add: model_defs example_defs)
  have h3: "plugin ?st = Some plugin_A"
    by (simp add: model_defs example_defs)
  have h4: "\<not> (\<exists>p \<in> set (originalPlugins mgr2). p_name p = s_name ?st)"
    by (simp add: model_defs example_defs)
  have h5: "find_state plugin_A (plugins mgr2) = Some (''#A'', ?st)"
    by (simp add: model_defs example_defs)
  have b: "''#B'' \<noteq> ''#A''" "getPlugin ''#B'' mgr2 = Some ?stB"
    "11 \<in> set (handlers_for ''e'' (c_eventHandlers (components ?stB)))"
    "11 \<in> set (handlers_on ''e'' (r_events (runtime mgr2)))"
    "11 \<notin> set (handlers_for ''e'' (c_eventHandlers (components ?st)))"
    by (simp_all add: model_defs example_defs handlers_on_def handlers_for_def)
  note t = unloadPlugin_event_handlers[OF h1 h2 h3 h4 h5, of 4]
  from t have "\<forall>j stB e h. j \<noteq> ''#A'' \<and> getPlugin j mgr2 = Some stB \<and>
         h \<in> set (handlers_for e (c_eventHandlers (components stB))) \<and>
         h \<in> set (handlers_on e (r_events (runtime mgr2))) \<and>
         h \<notin> set (handlers_for e (c_eventHandlers (components ?st))) \<longrightarrow>
         h \<in> set (handlers_on e (r_events (runtime (snd (unloadPlugin ''#A'' 4 mgr2))))) \<and>
         getPlugin j (snd (unloadPlugin ''#A'' 4 mgr2)) = Some stB"
    by blast
  from this[rule_format, of "''#B''" ?stB 11 "''e''"] b
  have r: "11 \<in> set (handlers_on ''e'' (r_events (runtime (snd (unloadPlugin ''#A'' 4 mgr2)))))"
    "getPlugin ''#B'' (snd (unloadPlugin ''#A'' 4 mgr2)) = getPlugin ''#B'' mgr2"
    by simp_all
  from t b r show ?thesis by blast
qed

text \<open>
  C8 as stated fails when the two plugins registered the same handler reference: \<open>A\<close>
  and \<open>C\<close> both handle \<open>e\<close> with the handler \<open>10\<close>, the bus holds it twice, and
  \<open>unloadPlugin\<close> of \<open>A\<close> leaves no handler for \<open>e\<close> although \<open>C\<close> is still loaded and
  still holds the handler in its component set.
\<close>

theorem unloadPlugin_event_handlers_counterexample:
  "r_events (runtime mgr3) = [(''e'', [10, 10])] \<and>
   status (the (getPlugin ''#C'' mgr3)) = LOADED \<and>
   c_eventHandlers (components (the (getPlugin ''#C'' mgr3))) = [(''e'', [10])] \<and>
   fst (unloadPlugin ''#A'' 4 mgr3) = Inr () \<and>
   r_events (runtime (snd (unloadPlugin ''#A'' 4 mgr3))) = [] \<and>
   getPlugin ''#C'' (snd (unloadPlugin ''#A'' 4 mgr3)) = getPlugin ''#C'' mgr3"
  by (simp add: model_defs example_defs)

text \<open>
  C9. Component registration of a plugin whose record is found. An error comes out of
  it only when a registration call of the host was rejected, never from a service whose
  start throws; in particular it returns normally on a host that rejects nothing. When
  it returns normally, the plugin object has been appended to the host's plugin list, and
  the service types added to the host service table and to the plugin's component set
  are exactly those of the declared service classes whose start returned: a class whose
  start throws adds nothing, and the classes after it are still started and installed.
\<close>

theorem registerPluginComponents_service_start_failure:
  assumes "find_state p (plugins s) = Some (k, st)"
      and "registerPluginComponents p now s = (r, s')"
  shows "(\<forall>e. r = Some e \<longrightarrow> (\<exists>call m. hostFault (runtime s) call = Some m \<and> e = Thrown m)) \<and>
         ((\<forall>call. hostFault (runtime s) call = None) \<longrightarrow> r = None) \<and>
         (r = None \<longrightarrow>
            r_plugins (runtime s') = r_plugins (runtime s) @ [p] \<and>
            (\<exists>st'. map_of (plugins s') k = Some st' \<and>
                c_services (components st') =
                  c_services (components st) \<union>
                  serviceType ` set (filter starts (declared (p_services p)))) \<and>
            dom (map_of (r_services (runtime s'))) =
              dom (map_of (r_services (runtime s))) \<union>
              serviceType ` set (filter starts (declared (p_services p))) \<and>
            (\<forall>T. T \<notin> serviceType ` set (filter starts (declared (p_services p))) \<longrightarrow>
                 map_of (r_services (runtime s')) T = map_of (r_services (runtime s)) T))"
proof -
  let ?c0 = "\<lparr>x_rt = runtime s, x_comps = components st, x_reg = componentRegistry s\<rparr>"
  obtain r4 c4 where f: "four_steps p (s_id st) now ?c0 = (r4, c4)"
    by (cases "four_steps p (s_id st) now ?c0")
  from four_steps_frame[OF f] have
    fr: "r_services (x_rt c4) = r_services (runtime s)" "r_plugins (x_rt c4) = r_plugins (runtime s)"
        "c_services (x_comps c4) = c_services (components st)"
        "\<forall>m. r4 = Some m \<longrightarrow> (\<exists>call. hostFault (runtime s) call = Some m)"
    by simp_all
  let ?c5 = "reg_services p (s_id st) now c4"
  show ?thesis
  proof (cases r4)
    case (Some m)
    with f have "register_all p (s_id st) now ?c0 = (Some m, c4)"
      by (simp add: register_all_four_steps and_then_def)
    with assms have "r = Some (Thrown m)"
      by (auto simp: registerPluginComponents_def)
    with fr(4) Some show ?thesis by auto
  next
    case None
    with f have "register_all p (s_id st) now ?c0 = (None, push_plugin p ?c5)"
      by (simp add: register_all_four_steps and_then_def)
    with assms have res: "r = None"
        "s' = s\<lparr>runtime := x_rt (push_plugin p ?c5),
                plugins := AList.update k (st\<lparr>components := x_comps (push_plugin p ?c5)\<rparr>) (plugins s),
                componentRegistry := x_reg (push_plugin p ?c5)\<rparr>"
      by (auto simp: registerPluginComponents_def)
    from reg_services_effect[of p "s_id st" now c4] fr res show ?thesis
      by (simp add: push_plugin_def update_conv')
  qed
qed

theorem registerPluginComponents_service_start_failure_witness:
  "\<not> starts \<lparr>serviceType = ''s1'', start = Inl ''down''\<rparr> \<and>
   fst (registerPluginComponents plugin_S 2 mgr_S) = None \<and>
   r_plugins (runtime (snd (registerPluginComponents plugin_S 2 mgr_S))) =
     r_plugins (runtime mgr_S) @ [plugin_S] \<and>
   dom (map_of (r_services (runtime (snd (registerPluginComponents plugin_S 2 mgr_S))))) =
     dom (map_of (r_services (runtime mgr_S))) \<union> {''s2''} \<and>
   (\<exists>st'. map_of (plugins (snd (registerPluginComponents plugin_S 2 mgr_S))) ''#S'' = Some st' \<and>
      c_services (components st') =
        c_services (components (the (getPlugin ''#S'' mgr_S))) \<union> {''s2''})"
proof -
  let ?st = "the (getPlugin ''#S'' mgr_S)"
  have h1: "find_state plugin_S (plugins mgr_S) = Some (''#S'', ?st)"
    by (simp add: model_defs example_defs)
  have h2: "registerPluginComponents plugin_S 2 mgr_S =
      (fst (registerPluginComponents plugin_S 2 mgr_S), snd (registerPluginComponents plugin_S 2 mgr_S))"
    by simp
  have h3: "\<forall>call. hostFault (runtime mgr_S) call = None"
    by (simp add: model_defs example_defs)
  have h4: "serviceType ` set (filter starts (declared (p_services plugin_S))) = {''s2''}"
    by (simp add: plugin_S_def declared_def starts_def)
  have h5: "\<not> starts \<lparr>serviceType = ''s1'', start = Inl ''down''\<rparr>"
    by (simp add: starts_def)
  from registerPluginComponents_service_start_failure[OF h1 h2] h3 h4 h5 show ?thesis
    by simp
qed




text \<open>
  Claim C5. \<^verbatim>\<open>getAvailablePluginsFromRegistry\<close> never raises: whatever the fetch ends in
  and whatever the cache holds, the call returns a catalog. After any run of calls that
  started with an empty cache, a call whose fetch fails returns the cached catalog and
  leaves the cache as it is: the empty catalog if every fetch of the run failed, and, if
  one did not, a catalog that a fetch of the run returned.
\<close>

theorem registry_fetch_never_raises:
  "(\<exists>d. fst (getAvailablePluginsFromRegistry now out cache) = Inr d) \<and>
   (fetch_fails out \<longrightarrow>
      getAvailablePluginsFromRegistry now out (registry_calls cs None) =
        (Inr (cached_catalog (registry_calls cs None)), registry_calls cs None) \<and>
      ((\<forall>c \<in> set cs. fetch_fails (snd c)) \<longrightarrow>
         fst (getAvailablePluginsFromRegistry now out (registry_calls cs None)) = Inr []) \<and>
      ((\<exists>c \<in> set cs. \<not> fetch_fails (snd c)) \<longrightarrow>
         (\<exists>c x. registry_calls cs None = Some c \<and> x \<in> set cs \<and> snd x = FetchOk (cache_data c) \<and>
            fst (getAvailablePluginsFromRegistry now out (registry_calls cs None)) =
              Inr (cache_data c))))"
proof -
  have a: "\<exists>d. fst (getAvailablePluginsFromRegistry now out cache) = Inr d"
    by (simp add: getAvailablePluginsFromRegistry_def getLocalRegistryIndex_returns)
  have b: "getAvailablePluginsFromRegistry now out (registry_calls cs None) =
        (Inr (cached_catalog (registry_calls cs None)), registry_calls cs None)" if "fetch_fails out"
    using that by (simp add: getAvailablePluginsFromRegistry_def getLocalRegistryIndex_failing)
  have c: "fst (getAvailablePluginsFromRegistry now out (registry_calls cs None)) = Inr []"
    if "fetch_fails out" "\<forall>c \<in> set cs. fetch_fails (snd c)"
  proof -
    from that(2) have "registry_calls cs None = None" by (simp add: registry_calls_None)
    with b[OF that(1)] show ?thesis by (simp add: cached_catalog_def)
  qed
  have d: "\<exists>c x. registry_calls cs None = Some c \<and> x \<in> set cs \<and> snd x = FetchOk (cache_data c) \<and>
            fst (getAvailablePluginsFromRegistry now out (registry_calls cs None)) = Inr (cache_data c)"
    if "fetch_fails out" "\<exists>c \<in> set cs. \<not> fetch_fails (snd c)"
  proof -
    from that(2) have "registry_calls cs None \<noteq> None" by (simp add: registry_calls_None)
    then obtain c where c: "registry_calls cs None = Some c" by auto
    from registry_calls_Some[OF c] obtain x where x: "x \<in> set cs" "snd x = FetchOk (cache_data c)"
      by auto
    from c b[OF that(1)]
    have "fst (getAvailablePluginsFromRegistry now out (registry_calls cs None)) = Inr (cache_data c)"
      by (simp add: cached_catalog_def)
    with c x show ?thesis by blast
  qed
  show ?thesis using a b c d by blast
qed

theorem registry_fetch_never_raises_witness:
  "fetch_fails (HttpError ''x'') \<and>
   getAvailablePluginsFromRegistry 9999999 (HttpError ''x'')
       (registry_calls [(0, FetchOk catalog0), (1, NetworkError ''n'')] None) =
     (Inr catalog0, Some \<lparr>cache_data = catalog0, cache_timestamp = 0\<rparr>) \<and>
   getAvailablePluginsFromRegistry 9999999 (HttpError ''x'')
       (registry_calls [(0, BadJson ''j''), (1, NetworkError ''n'')] None) =
     (Inr [], None)"
  using registry_fetch_never_raises
    [where now = 9999999 and out = "HttpError ''x''"
       and cs = "[(0, FetchOk catalog0), (1, NetworkError ''n'')]"]
    registry_fetch_never_raises
    [where now = 9999999 and out = "HttpError ''x''"
       and cs = "[(0, BadJson ''j''), (1, NetworkError ''n'')]"]
  by (simp add: fetch_fails_def fetch_registry_def getLocalRegistryIndex_def cached_catalog_def
        CACHE_DURATION_def)

text \<open>
  Claim C7, as the code has it. An install that succeeds, from the registry or from a local bundle, produces
  a record read from the manifest of the installed artifact: its status is
  \<open>needs_configuration\<close> exactly when the manifest declares at least one required
  variable, and \<open>installed\<close> exactly when it declares none; every declared variable is
  recorded as not set. For a name whose installed record has status
  \<open>needs_configuration\<close>, \<^verbatim>\<open>loadInstalledPlugin\<close> fails with the configuration-required
  error and returns the state it was given.
\<close>

theorem install_status_from_manifest:
  "(installPluginFromRegistry pluginName version now w (cache, s) = (Inr info, cache', s') \<longrightarrow>
      (\<exists>pj. w_readJson w (path_join [getPluginInstallPath pluginName s, ''package.json'']) =
               Inr (Some pj) \<and> record_of_manifest pj info) \<and>
      getInstalledPluginInfo pluginName s' = Some info) \<and>
   (installFromLocalBundle bundlePath now w s = (Inr infoB, sB) \<longrightarrow>
      (\<exists>pj. w_readJson w (path_join [bundlePath, ''package.json'']) = Inr (Some pj) \<and>
            record_of_manifest pj infoB) \<and>
      getInstalledPluginInfo (i_name infoB) sB = Some infoB) \<and>
   (getInstalledPluginInfo name sL = Some infoL \<and> i_status infoL = needs_configuration \<longrightarrow>
      loadInstalledPlugin name nowL wL sL = (Inl (ConfigurationRequired name), sL))"
proof (intro conjI impI)
  assume a: "installPluginFromRegistry pluginName version now w (cache, s) = (Inr info, cache', s')"
  from installPluginFromRegistry_Inr[OF a] obtain md where
    md: "parsePluginMetadata (getPluginInstallPath pluginName s) w = Inr md"
      "info = plugin_info md (getPluginInstallPath pluginName s) now"
      "s' = s\<lparr>installedPlugins := AList.update pluginName info (installedPlugins s)\<rparr>"
    by blast
  from parsePluginMetadata_Inr[OF md(1)] md(2)
  show "\<exists>pj. w_readJson w (path_join [getPluginInstallPath pluginName s, ''package.json'']) =
               Inr (Some pj) \<and> record_of_manifest pj info"
    by blast
  show "getInstalledPluginInfo pluginName s' = Some info"
    by (simp add: md(3) getInstalledPluginInfo_update)
next
  assume a: "installFromLocalBundle bundlePath now w s = (Inr infoB, sB)"
  from installFromLocalBundle_Inr[OF a] obtain md where
    md: "parsePluginMetadata bundlePath w = Inr md"
      "infoB = plugin_info md (getPluginInstallPath (m_name md) s) now"
      "sB = s\<lparr>installedPlugins := AList.update (m_name md) infoB (installedPlugins s)\<rparr>"
    by blast
  from parsePluginMetadata_Inr[OF md(1)] md(2)
  show "\<exists>pj. w_readJson w (path_join [bundlePath, ''package.json'']) = Inr (Some pj) \<and>
            record_of_manifest pj infoB"
    by blast
  have "i_name infoB = m_name md" by (simp add: md(2) plugin_info_name)
  then show "getInstalledPluginInfo (i_name infoB) sB = Some infoB"
    by (simp add: md(3) getInstalledPluginInfo_update)
next
  assume "getInstalledPluginInfo name sL = Some infoL \<and> i_status infoL = needs_configuration"
  then show "loadInstalledPlugin name nowL wL sL = (Inl (ConfigurationRequired name), sL)"
    by (simp add: loadInstalledPlugin_needs_configuration)
qed

theorem install_status_from_manifest_witness:
  "installPluginFromRegistry ''r'' None 0 world0 (None, mgr0) =
     (Inr (info_K ''plugins/installed/r''), Some \<lparr>cache_data = catalog0, cache_timestamp = 0\<rparr>,
      mgr0\<lparr>installedPlugins := [(''r'', info_K ''plugins/installed/r'')]\<rparr>) \<and>
   installFromLocalBundle ''b'' 0 world0 mgr0 =
     (Inr (info_K ''plugins/installed/m''),
      mgr0\<lparr>installedPlugins := [(''m'', info_K ''plugins/installed/m'')]\<rparr>) \<and>
   record_of_manifest manifest_K (info_K ''plugins/installed/r'') \<and>
   record_of_manifest manifest_K (info_K ''plugins/installed/m'') \<and>
   i_status (info_K ''plugins/installed/r'') = needs_configuration \<and>
   loadInstalledPlugin ''r'' 1 world0
       (mgr0\<lparr>installedPlugins := [(''r'', info_K ''plugins/installed/r'')]\<rparr>) =
     (Inl (ConfigurationRequired ''r''),
      mgr0\<lparr>installedPlugins := [(''r'', info_K ''plugins/installed/r'')]\<rparr>) \<and>
   installPluginFromRegistry ''r'' None 0 world1 (None, mgr0) =
     (Inr (info_plain ''plugins/installed/r''),
      Some \<lparr>cache_data = catalog0, cache_timestamp = 0\<rparr>,
      mgr0\<lparr>installedPlugins := [(''r'', info_plain ''plugins/installed/r'')]\<rparr>) \<and>
   installFromLocalBundle ''b'' 0 world1 mgr0 =
     (Inr (info_plain ''plugins/installed/m''),
      mgr0\<lparr>installedPlugins := [(''m'', info_plain ''plugins/installed/m'')]\<rparr>) \<and>
   record_of_manifest manifest_plain (info_plain ''plugins/installed/r'') \<and>
   record_of_manifest manifest_plain (info_plain ''plugins/installed/m'') \<and>
   i_status (info_plain ''plugins/installed/r'') = installed"
  using install_status_from_manifest
    [where pluginName = "''r''" and version = None and now = 0 and w = world1 and cache = None
       and s = mgr0 and info = "info_plain ''plugins/installed/r''"
       and cache' = "Some \<lparr>cache_data = catalog0, cache_timestamp = 0\<rparr>"
       and s' = "mgr0\<lparr>installedPlugins := [(''r'', info_plain ''plugins/installed/r'')]\<rparr>"
       and bundlePath = "''b''" and infoB = "info_plain ''plugins/installed/m''"
       and sB = "mgr0\<lparr>installedPlugins := [(''m'', info_plain ''plugins/installed/m'')]\<rparr>"
       and name = "''r''" and infoL = "info_K ''plugins/installed/r''"
       and sL = "mgr0\<lparr>installedPlugins := [(''r'', info_K ''plugins/installed/r'')]\<rparr>"
       and nowL = 1 and wL = world0]
    install_status_from_manifest
    [where pluginName = "''r''" and version = None and now = 0 and w = world0 and cache = None
       and s = mgr0 and info = "info_K ''plugins/installed/r''"
       and cache' = "Some \<lparr>cache_data = catalog0, cache_timestamp = 0\<rparr>"
       and s' = "mgr0\<lparr>installedPlugins := [(''r'', info_K ''plugins/installed/r'')]\<rparr>"
       and bundlePath = "''b''" and infoB = "info_K ''plugins/installed/m''"
       and sB = "mgr0\<lparr>installedPlugins := [(''m'', info_K ''plugins/installed/m'')]\<rparr>"
       and name = "''r''" and infoL = "info_K ''plugins/installed/r''"
       and sL = "mgr0\<lparr>installedPlugins := [(''r'', info_K ''plugins/installed/r'')]\<rparr>"
       and nowL = 1 and wL = world0]
  by (simp add: world0_install_registry world0_install_bundle world1_install_registry
        world1_install_bundle getInstalledPluginInfo_def info_K_status info_plain_status
        world0_readJson world1_readJson)

text \<open>
  C7 as stated fails when a declared variable is set: the variable \<open>K\<close> has a value in
  the world, the manifest declares \<open>K\<close> and nothing else, so no required variable is
  unset; the install still marks \<open>K\<close> as not set and gives the status
  \<open>needs_configuration\<close>, and \<open>loadInstalledPlugin\<close> is refused.
\<close>

theorem install_status_counterexample:
  "w_env world_K_set ''K'' = Some ''v'' \<and>
   w_readJson world_K_set (path_join [getPluginInstallPath ''r'' mgr0, ''package.json'']) =
     Inr (Some manifest_K) \<and>
   map d_name (requiredEnvVarsConfig manifest_K) = [''K''] \<and>
   installPluginFromRegistry ''r'' None 0 world_K_set (None, mgr0) =
     (Inr (info_K ''plugins/installed/r''),
      Some \<lparr>cache_data = catalog0, cache_timestamp = 0\<rparr>,
      mgr0\<lparr>installedPlugins := [(''r'', info_K ''plugins/installed/r'')]\<rparr>) \<and>
   i_status (info_K ''plugins/installed/r'') = needs_configuration \<and>
   map isSet (requiredEnvVars (info_K ''plugins/installed/r'')) = [False] \<and>
   loadInstalledPlugin ''r'' 1 world_K_set
       (mgr0\<lparr>installedPlugins := [(''r'', info_K ''plugins/installed/r'')]\<rparr>) =
     (Inl (ConfigurationRequired ''r''),
      mgr0\<lparr>installedPlugins := [(''r'', info_K ''plugins/installed/r'')]\<rparr>)"
proof -
  have a: "w_env world_K_set ''K'' = Some ''v''"
    by (simp add: world_K_set_def)
  have b: "w_readJson world_K_set p = Inr (Some manifest_K)" for p
    by (simp add: world_K_set_def world0_def)
  have c: "map d_name (requiredEnvVarsConfig manifest_K) = [''K'']"
    by (simp add: manifest_K_def requiredEnvVarsConfig_def)
  have d: "map isSet (requiredEnvVars (info_K x)) = [False]" for x
    by (simp add: info_K_def)
  have e: "loadInstalledPlugin ''r'' 1 world_K_set
       (mgr0\<lparr>installedPlugins := [(''r'', info_K ''plugins/installed/r'')]\<rparr>) =
     (Inl (ConfigurationRequired ''r''),
      mgr0\<lparr>installedPlugins := [(''r'', info_K ''plugins/installed/r'')]\<rparr>)"
    by (simp add: loadInstalledPlugin_def info_K_status)
  show ?thesis
    using a b c d e world_K_set_install_registry info_K_status by simp
qed

text \<open>
  Claim C10. \<^verbatim>\<open>installPluginFromRegistry\<close> stores the record under the name it was called
  with, while the record's own name is the one the manifest declares;
  \<^verbatim>\<open>installFromLocalBundle\<close> stores the record under the manifest's name. No other key of
  the installed-plugin table changes, so a name that is not the key and was not installed
  before is not found by \<^verbatim>\<open>getInstalledPluginInfo\<close>, and \<^verbatim>\<open>loadInstalledPlugin\<close> fails on
  it with the not-installed error.
\<close>

theorem installed_record_key:
  "(installPluginFromRegistry pluginName version now w (cache, s) = (Inr info, cache', s') \<longrightarrow>
      getInstalledPluginInfo pluginName s' = Some info \<and>
      (\<exists>pj. w_readJson w (path_join [getPluginInstallPath pluginName s, ''package.json'']) =
               Inr (Some pj) \<and> i_name info = or_default (pj_name pj) ''unknown'') \<and>
      (\<forall>k. k \<noteq> pluginName \<longrightarrow>
         getInstalledPluginInfo k s' = getInstalledPluginInfo k s \<and>
         (getInstalledPluginInfo k s = None \<longrightarrow>
            loadInstalledPlugin k t w' s' = (Inl (NotInstalled k), s')))) \<and>
   (installFromLocalBundle bundlePath now w s = (Inr infoB, sB) \<longrightarrow>
      getInstalledPluginInfo (i_name infoB) sB = Some infoB \<and>
      (\<exists>pj. w_readJson w (path_join [bundlePath, ''package.json'']) = Inr (Some pj) \<and>
            i_name infoB = or_default (pj_name pj) ''unknown'') \<and>
      (\<forall>k. k \<noteq> i_name infoB \<longrightarrow>
         getInstalledPluginInfo k sB = getInstalledPluginInfo k s \<and>
         (getInstalledPluginInfo k s = None \<longrightarrow>
            loadInstalledPlugin k t w' sB = (Inl (NotInstalled k), sB))))"
proof (intro conjI impI)
  assume a: "installPluginFromRegistry pluginName version now w (cache, s) = (Inr info, cache', s')"
  from installPluginFromRegistry_Inr[OF a] obtain md where
    md: "parsePluginMetadata (getPluginInstallPath pluginName s) w = Inr md"
      "info = plugin_info md (getPluginInstallPath pluginName s) now"
      "s' = s\<lparr>installedPlugins := AList.update pluginName info (installedPlugins s)\<rparr>"
    by blast
  show "getInstalledPluginInfo pluginName s' = Some info"
    by (simp add: md(3) getInstalledPluginInfo_update)
  from parsePluginMetadata_Inr[OF md(1)] md(2)
  show "\<exists>pj. w_readJson w (path_join [getPluginInstallPath pluginName s, ''package.json'']) =
               Inr (Some pj) \<and> i_name info = or_default (pj_name pj) ''unknown''"
    unfolding record_of_manifest_def by blast
  have other: "getInstalledPluginInfo k s' = getInstalledPluginInfo k s" if "k \<noteq> pluginName" for k
    using that by (simp add: md(3) getInstalledPluginInfo_update)
  show "\<forall>k. k \<noteq> pluginName \<longrightarrow>
         getInstalledPluginInfo k s' = getInstalledPluginInfo k s \<and>
         (getInstalledPluginInfo k s = None \<longrightarrow>
            loadInstalledPlugin k t w' s' = (Inl (NotInstalled k), s'))"
    using other by (simp add: loadInstalledPlugin_not_installed)
next
  assume a: "installFromLocalBundle bundlePath now w s = (Inr infoB, sB)"
  from installFromLocalBundle_Inr[OF a] obtain md where
    md: "parsePluginMetadata bundlePath w = Inr md"
      "infoB = plugin_info md (getPluginInstallPath (m_name md) s) now"
      "sB = s\<lparr>installedPlugins := AList.update (m_name md) infoB (installedPlugins s)\<rparr>"
    by blast
  have n: "i_name infoB = m_name md" by (simp add: md(2) plugin_info_name)
  then show "getInstalledPluginInfo (i_name infoB) sB = Some infoB"
    by (simp add: md(3) getInstalledPluginInfo_update)
  from parsePluginMetadata_Inr[OF md(1)] md(2)
  show "\<exists>pj. w_readJson w (path_join [bundlePath, ''package.json'']) = Inr (Some pj) \<and>
            i_name infoB = or_default (pj_name pj) ''unknown''"
    unfolding record_of_manifest_def by blast
  have other: "getInstalledPluginInfo k sB = getInstalledPluginInfo k s" if "k \<noteq> i_name infoB" for k
    using that n by (simp add: md(3) getInstalledPluginInfo_update)
  show "\<forall>k. k \<noteq> i_name infoB \<longrightarrow>
         getInstalledPluginInfo k sB = getInstalledPluginInfo k s \<and>
         (getInstalledPluginInfo k s = None \<longrightarrow>
            loadInstalledPlugin k t w' sB = (Inl (NotInstalled k), sB))"
    using other by (simp add: loadInstalledPlugin_not_installed)
qed

theorem installed_record_key_witness:
  "installPluginFromRegistry ''r'' None 0 world0 (None, mgr0) =
     (Inr (info_K ''plugins/installed/r''), Some \<lparr>cache_data = catalog0, cache_timestamp = 0\<rparr>,
      mgr0\<lparr>installedPlugins := [(''r'', info_K ''plugins/installed/r'')]\<rparr>) \<and>
   i_name (info_K ''plugins/installed/r'') = ''m'' \<and>
   getInstalledPluginInfo ''r''
       (mgr0\<lparr>installedPlugins := [(''r'', info_K ''plugins/installed/r'')]\<rparr>) =
     Some (info_K ''plugins/installed/r'') \<and>
   getInstalledPluginInfo ''m''
       (mgr0\<lparr>installedPlugins := [(''r'', info_K ''plugins/installed/r'')]\<rparr>) = None \<and>
   loadInstalledPlugin ''m'' 1 world0
       (mgr0\<lparr>installedPlugins := [(''r'', info_K ''plugins/installed/r'')]\<rparr>) =
     (Inl (NotInstalled ''m''),
      mgr0\<lparr>installedPlugins := [(''r'', info_K ''plugins/installed/r'')]\<rparr>) \<and>
   installFromLocalBundle ''b'' 0 world0 mgr0 =
     (Inr (info_K ''plugins/installed/m''),
      mgr0\<lparr>installedPlugins := [(''m'', info_K ''plugins/installed/m'')]\<rparr>) \<and>
   getInstalledPluginInfo ''m''
       (mgr0\<lparr>installedPlugins := [(''m'', info_K ''plugins/installed/m'')]\<rparr>) =
     Some (info_K ''plugins/installed/m'') \<and>
   loadInstalledPlugin ''b'' 1 world0
       (mgr0\<lparr>installedPlugins := [(''m'', info_K ''plugins/installed/m'')]\<rparr>) =
     (Inl (NotInstalled ''b''),
      mgr0\<lparr>installedPlugins := [(''m'', info_K ''plugins/installed/m'')]\<rparr>)"
proof -
  have none: "getInstalledPluginInfo k mgr0 = None" for k
    by (simp add: getInstalledPluginInfo_def mgr0_def new_PluginManagerService_def)
  note t = installed_record_key
    [where pluginName = "''r''" and version = None and now = 0 and w = world0 and cache = None
       and s = mgr0 and info = "info_K ''plugins/installed/r''"
       and cache' = "Some \<lparr>cache_data = catalog0, cache_timestamp = 0\<rparr>"
       and s' = "mgr0\<lparr>installedPlugins := [(''r'', info_K ''plugins/installed/r'')]\<rparr>"
       and bundlePath = "''b''" and infoB = "info_K ''plugins/installed/m''"
       and sB = "mgr0\<lparr>installedPlugins := [(''m'', info_K ''plugins/installed/m'')]\<rparr>"
       and t = 1 and w' = world0]
  from t have r: "\<forall>k. k \<noteq> ''r'' \<longrightarrow>
       getInstalledPluginInfo k
         (mgr0\<lparr>installedPlugins := [(''r'', info_K ''plugins/installed/r'')]\<rparr>) = None \<and>
       loadInstalledPlugin k 1 world0
           (mgr0\<lparr>installedPlugins := [(''r'', info_K ''plugins/installed/r'')]\<rparr>) =
         (Inl (NotInstalled k),
          mgr0\<lparr>installedPlugins := [(''r'', info_K ''plugins/installed/r'')]\<rparr>)"
    by (simp add: world0_install_registry none)
  from t have b: "\<forall>k. k \<noteq> ''m'' \<longrightarrow>
       loadInstalledPlugin k 1 world0
           (mgr0\<lparr>installedPlugins := [(''m'', info_K ''plugins/installed/m'')]\<rparr>) =
         (Inl (NotInstalled k),
          mgr0\<lparr>installedPlugins := [(''m'', info_K ''plugins/installed/m'')]\<rparr>)"
    by (simp add: world0_install_bundle none info_K_name)
  from t have g: "getInstalledPluginInfo ''r''
       (mgr0\<lparr>installedPlugins := [(''r'', info_K ''plugins/installed/r'')]\<rparr>) =
     Some (info_K ''plugins/installed/r'')"
    "getInstalledPluginInfo ''m''
       (mgr0\<lparr>installedPlugins := [(''m'', info_K ''plugins/installed/m'')]\<rparr>) =
     Some (info_K ''plugins/installed/m'')"
    by (simp_all add: world0_install_registry world0_install_bundle info_K_name)
  from r have r': "getInstalledPluginInfo ''m''
         (mgr0\<lparr>installedPlugins := [(''r'', info_K ''plugins/installed/r'')]\<rparr>) = None"
       "loadInstalledPlugin ''m'' 1 world0
           (mgr0\<lparr>installedPlugins := [(''r'', info_K ''plugins/installed/r'')]\<rparr>) =
         (Inl (NotInstalled ''m''),
          mgr0\<lparr>installedPlugins := [(''r'', info_K ''plugins/installed/r'')]\<rparr>)"
    by simp_all
  from b have b': "loadInstalledPlugin ''b'' 1 world0
           (mgr0\<lparr>installedPlugins := [(''m'', info_K ''plugins/installed/m'')]\<rparr>) =
         (Inl (NotInstalled ''b''),
          mgr0\<lparr>installedPlugins := [(''m'', info_K ''plugins/installed/m'')]\<rparr>)"
    by simp
  show ?thesis
    using g r' b' by (simp add: world0_install_registry world0_install_bundle info_K_name)
qed

end
